theory Spec2Isabelle
  imports Complex_Main
begin

unbundle bit_operations_syntax

section \<open>Shared data model\<close>

text \<open>
  Band names. The enumerations live in \<^verbatim>\<open>eoreader.bands\<close>; the members listed here
  are the ones the product classes and the index module refer to
  (\<^verbatim>\<open>spb.CA\<close> ... \<^verbatim>\<open>spb.SWIR_2\<close>, \<^verbatim>\<open>spb.PAN\<close>, and the cloud bands
  \<^verbatim>\<open>RAW_CLOUDS, CLOUDS, SHADOWS, CIRRUS, ALL_CLOUDS\<close>).
\<close>

datatype band =
    CA | BLUE | GREEN | RED | VRE_1 | VRE_2 | VRE_3 | NIR | NARROW_NIR | WV
  | SWIR_CIRRUS | SWIR_1 | SWIR_2 | PAN
  | RAW_CLOUDS | CLOUDS | SHADOWS | CIRRUS | ALL_CLOUDS

text \<open>
  Python exceptions as values. Only the exceptions that the modelled functions raise,
  catch or let through are listed; the string is the message where the source builds one.
\<close>

datatype error =
    InvalidProductError string
  | InvalidTypeError string
  | NotImplementedError string
  | AttributeError string
  | KeyError band
  | TypeError
  | ValueError
  | ZeroDivisionError
  | IndexError
  | AssertionError

text \<open>The logger: the records emitted so far, oldest first.\<close>

datatype log_level = LogDebug | LogWarning

type_synonym log = "(log_level \<times> string) list"

definition log_warning :: "string \<Rightarrow> log \<Rightarrow> log" where
  "log_warning msg lg = lg @ [(LogWarning, msg)]"


subsection \<open>Pixel values\<close>

text \<open>
  A pixel of a float array: a finite number, an infinity or NaN. The arithmetic is the
  IEEE-754 one that numpy applies elementwise, on the special values; rounding, overflow
  of finite results and the sign of zero are not modelled (a finite result is the exact
  real number, zero is taken as positive).
\<close>

datatype fnum = Fin real | PInf | NInf | NaN

fun fneg :: "fnum \<Rightarrow> fnum" where
  "fneg (Fin x) = Fin (- x)"
| "fneg PInf = NInf"
| "fneg NInf = PInf"
| "fneg NaN = NaN"

fun fadd :: "fnum \<Rightarrow> fnum \<Rightarrow> fnum" where
  "fadd NaN _ = NaN"
| "fadd _ NaN = NaN"
| "fadd PInf NInf = NaN"
| "fadd NInf PInf = NaN"
| "fadd PInf _ = PInf"
| "fadd _ PInf = PInf"
| "fadd NInf _ = NInf"
| "fadd _ NInf = NInf"
| "fadd (Fin a) (Fin b) = Fin (a + b)"

definition fsub :: "fnum \<Rightarrow> fnum \<Rightarrow> fnum" where
  "fsub a b = fadd a (fneg b)"

fun fdiv :: "fnum \<Rightarrow> fnum \<Rightarrow> fnum" where
  "fdiv NaN _ = NaN"
| "fdiv _ NaN = NaN"
| "fdiv (Fin a) (Fin b) =
     (if b = 0 then (if a = 0 then NaN else if 0 < a then PInf else NInf)
      else Fin (a / b))"
| "fdiv (Fin a) _ = Fin 0"
| "fdiv PInf (Fin b) = (if 0 \<le> b then PInf else NInf)"
| "fdiv NInf (Fin b) = (if 0 \<le> b then NInf else PInf)"
| "fdiv _ _ = NaN"

fun is_inf :: "fnum \<Rightarrow> bool" where
  "is_inf PInf = True"
| "is_inf NInf = True"
| "is_inf _ = False"

text \<open>
  The no-data sentinel of a loaded band: the product classes mask invalid pixels with NaN
  and test for them with \<^verbatim>\<open>np.isnan\<close> (\<^verbatim>\<open>_open_clouds_lt_4_0\<close>).
\<close>

definition nodata :: fnum where
  "nodata = NaN"

text \<open>
  A band array is the list of its pixels in row-major order. All arrays of one request
  lie on the same grid, so an elementwise operation pairs the pixels by position.
\<close>

type_synonym array = "fnum list"

section \<open>bands/index.py\<close>

text \<open>
  \<^verbatim>\<open>np.seterr(divide="ignore", invalid="ignore")\<close> only silences numpy's warnings:
  \<^verbatim>\<open>np.divide\<close> returns the IEEE quotient of every pixel pair and never raises.
\<close>

definition np_divide :: "array \<Rightarrow> array \<Rightarrow> array" where
  "np_divide xs ys = map2 fdiv xs ys"

definition np_add :: "array \<Rightarrow> array \<Rightarrow> array" where
  "np_add xs ys = map2 fadd xs ys"

definition np_subtract :: "array \<Rightarrow> array \<Rightarrow> array" where
  "np_subtract xs ys = map2 fsub xs ys"

text \<open>
  \<^verbatim>\<open>norm = np.divide(band_1 - band_2, band_1 + band_2)\<close>;
  \<^verbatim>\<open>rasters.set_metadata\<close> copies attributes only and leaves the pixels alone.
\<close>

definition norm_diff :: "array \<Rightarrow> array \<Rightarrow> array" where
  "norm_diff band_1 band_2 = np_divide (np_subtract band_1 band_2) (np_add band_1 band_2)"

text \<open>\<^verbatim>\<open>bands[key]\<close> on the dictionary of loaded bands.\<close>

definition getitem :: "(band \<rightharpoonup> array) \<Rightarrow> band \<Rightarrow> error + array" where
  "getitem bands b = (case bands b of None \<Rightarrow> Inl (KeyError b) | Some a \<Rightarrow> Inr a)"

text \<open>
  The index functions, as written in the module. The decorator \<^verbatim>\<open>_idx_fct\<close> renames
  the result and does not touch the pixels. Python evaluates the two subscripts left to
  right, so a missing first band is the one reported.
\<close>

definition index2 :: "(array \<Rightarrow> array \<Rightarrow> array) \<Rightarrow> (band \<rightharpoonup> array) \<Rightarrow> band \<Rightarrow> band
    \<Rightarrow> error + array" where
  "index2 f bands b1 b2 =
     (case getitem bands b1 of
        Inl e \<Rightarrow> Inl e
      | Inr x \<Rightarrow> (case getitem bands b2 of Inl e \<Rightarrow> Inl e | Inr y \<Rightarrow> Inr (f x y)))"

definition RGI :: "(band \<rightharpoonup> array) \<Rightarrow> error + array" where
  "RGI bands = index2 np_divide bands RED GREEN"

definition NDVI :: "(band \<rightharpoonup> array) \<Rightarrow> error + array" where
  "NDVI bands = index2 np_divide bands NIR RED"

definition GNDVI :: "(band \<rightharpoonup> array) \<Rightarrow> error + array" where
  "GNDVI bands = index2 norm_diff bands NIR GREEN"

definition NDGRI :: "(band \<rightharpoonup> array) \<Rightarrow> error + array" where
  "NDGRI bands = index2 norm_diff bands GREEN RED"

definition SRSWIR :: "(band \<rightharpoonup> array) \<Rightarrow> error + array" where
  "SRSWIR bands = index2 np_divide bands SWIR_1 SWIR_2"

section \<open>Metadata XML access\<close>

text \<open>
  What \<^verbatim>\<open>findtext\<close> hands back: \<^verbatim>\<open>None\<close> when no element matches, otherwise the
  element's text. The second field of \<open>Text\<close> records what Python's \<^verbatim>\<open>float\<close> makes of
  that text: \<open>Some r\<close> when it parses to \<open>r\<close>, \<open>None\<close> when \<^verbatim>\<open>float\<close> rejects it.
\<close>

datatype xml_text = NoText | Text string "real option"

text \<open>
  \<^verbatim>\<open>float(x)\<close>: a \<^verbatim>\<open>TypeError\<close> on \<^verbatim>\<open>None\<close>, a \<^verbatim>\<open>ValueError\<close> on text that is not
  a number.
\<close>

fun py_float :: "xml_text \<Rightarrow> error + real" where
  "py_float NoText = Inl TypeError"
| "py_float (Text s None) = Inl ValueError"
| "py_float (Text s (Some r)) = Inr r"

fun text_of :: "xml_text \<Rightarrow> string option" where
  "text_of NoText = None"
| "text_of (Text s p) = Some s"

text \<open>
  An element of a parsed document, as the product classes use it: its tag, its children in
  document order, and the answers of \<^verbatim>\<open>find\<close> and \<^verbatim>\<open>findtext\<close> to a path.
\<close>

datatype element =
  Element (el_tag: string) (el_children: "element list")
          (el_find: "string \<Rightarrow> element option") (el_findtext: "string \<Rightarrow> xml_text")

text \<open>\<^verbatim>\<open>int(x)\<close> on a band identifier: decimal digits only in the band table.\<close>

definition is_digit :: "char \<Rightarrow> bool" where
  "is_digit c = (48 \<le> (of_char c :: nat) \<and> (of_char c :: nat) \<le> 57)"

definition digits_value :: "string \<Rightarrow> nat" where
  "digits_value s = foldl (\<lambda>acc c. 10 * acc + ((of_char c :: nat) - 48)) 0 s"

definition py_int :: "string option \<Rightarrow> error + nat" where
  "py_int x =
     (case x of
        None \<Rightarrow> Inl TypeError
      | Some s \<Rightarrow> if s \<noteq> [] \<and> list_all is_digit s then Inr (digits_value s) else Inl ValueError)"

text \<open>\<^verbatim>\<open>str(n)\<close> of a non-negative integer, as an f-string renders it.\<close>

definition digit_char :: "nat \<Rightarrow> char" where
  "digit_char d =
     (if d = 0 then CHR ''0'' else if d = 1 then CHR ''1'' else if d = 2 then CHR ''2''
      else if d = 3 then CHR ''3'' else if d = 4 then CHR ''4'' else if d = 5 then CHR ''5''
      else if d = 6 then CHR ''6'' else if d = 7 then CHR ''7'' else if d = 8 then CHR ''8''
      else CHR ''9'')"

fun str_nat_fuel :: "nat \<Rightarrow> nat \<Rightarrow> string" where
  "str_nat_fuel 0 n = [digit_char (n mod 10)]"
| "str_nat_fuel (Suc k) n =
     (if n < 10 then [digit_char n] else str_nat_fuel k (n div 10) @ [digit_char (n mod 10)])"

definition str_nat :: "nat \<Rightarrow> string" where
  "str_nat n = str_nat_fuel n n"

definition endswith :: "string \<Rightarrow> string \<Rightarrow> bool" where
  "endswith s suffix = (length suffix \<le> length s \<and> drop (length s - length suffix) s = suffix)"

section \<open>products/optical/s2\_product.py\<close>

datatype s2_product_type = L1C | L2A

datatype s2_gml_mask =
    GmlFOOTPRINT | GmlCLOUDS | GmlDEFECT | GmlNODATA | GmlSATURATION | GmlQUALITY

text \<open>
  A vector layer (a GeoDataFrame): one row per feature, with its \<^verbatim>\<open>gml_id\<close>, its
  \<^verbatim>\<open>maskType\<close> where the layer has that column, and its geometry. A geometry is given by
  the pixels of the band grid, as (row, column), whose centre it covers: that is all
  \<^verbatim>\<open>features.rasterize\<close> reads of it.
\<close>

type_synonym shape = "(nat \<times> nat) list"

record feature =
  gml_id :: string
  maskType :: "string option"
  geometry :: shape

type_synonym gdf = "feature list"

text \<open>A band as read from disk: the rows of its single plane (shape (1, height, width)).\<close>

type_synonym raster = "fnum list list"

text \<open>
  A Sentinel-2 product: the attributes set at construction and what the files of the
  product answer to each read. \<open>mtd\<close> is the outcome of \<^verbatim>\<open>read_mtd()\<close>,
  \<open>datatake_mtd\<close> of \<^verbatim>\<open>read_datatake_mtd()\<close>, \<open>gml_mask\<close> of
  \<^verbatim>\<open>_open_mask_lt_4_0\<close> for a mask and a band (no band for the cloud mask, which reads
  band \<^verbatim>\<open>00\<close>), \<open>jp2_clouds\<close> of \<^verbatim>\<open>_open_mask_gt_4_0(S2Jp2Masks.CLOUDS, "00")\<close> as
  its list of planes, \<open>default_band\<close> of \<^verbatim>\<open>_read_band\<close> on the default band.
  \<open>mask_true\<close> and \<open>mask_false\<close> are the attributes \<^verbatim>\<open>_mask_true\<close> and
  \<^verbatim>\<open>_mask_false\<close> of the optical base class.
\<close>

record s2_product =
  product_type :: s2_product_type
  processing_baseline :: real
  tile_name :: string
  mtd :: "error + element"
  datatake_mtd :: "error + element"
  gml_mask :: "s2_gml_mask \<Rightarrow> band option \<Rightarrow> error + gdf"
  jp2_clouds :: "error + nat list list list"
  default_band :: "error + raster"
  mask_true :: nat
  mask_false :: nat

text \<open>The attributes of the instance that the modelled methods write.\<close>

record s2_state =
  base_no_data_val :: real
  no_data_val :: "band \<rightharpoonup> real"

text \<open>The band table of \<^verbatim>\<open>_map_bands\<close>: the \<^verbatim>\<open>ID\<close> of each mapped band.\<close>

fun s2_band_id :: "s2_product_type \<Rightarrow> band \<Rightarrow> string option" where
  "s2_band_id _ CA = Some ''01''"
| "s2_band_id _ BLUE = Some ''02''"
| "s2_band_id _ GREEN = Some ''03''"
| "s2_band_id _ RED = Some ''04''"
| "s2_band_id _ VRE_1 = Some ''05''"
| "s2_band_id _ VRE_2 = Some ''06''"
| "s2_band_id _ VRE_3 = Some ''07''"
| "s2_band_id _ NIR = Some ''8A''"
| "s2_band_id _ NARROW_NIR = Some ''08''"
| "s2_band_id _ WV = Some ''09''"
| "s2_band_id _ SWIR_1 = Some ''11''"
| "s2_band_id _ SWIR_2 = Some ''12''"
| "s2_band_id L1C SWIR_CIRRUS = Some ''10''"
| "s2_band_id _ _ = None"

subsection \<open>\_to\_reflectance\<close>

definition quantif_prefix :: "s2_product_type \<Rightarrow> string" where
  "quantif_prefix t = (if t = L2A then ''BOA_'' else '''')"

definition offset_prefix :: "s2_product_type \<Rightarrow> string" where
  "offset_prefix t = (if t = L2A then ''BOA_'' else ''RADIO_'')"

text \<open>
  The body of the outer \<^verbatim>\<open>try\<close>: the pair (offset, quantification value) read from
  the datatake metadata. An inner \<^verbatim>\<open>except TypeError\<close> turns a missing element into
  \<^verbatim>\<open>InvalidProductError\<close>; every other exception leaves the block as it is.
\<close>

definition not_found :: "string \<Rightarrow> error + 'a \<Rightarrow> error + 'a" where
  "not_found msg r = (case r of Inl TypeError \<Rightarrow> Inl (InvalidProductError msg) | _ \<Rightarrow> r)"

definition offset_band_id :: "s2_product \<Rightarrow> band \<Rightarrow> error + nat" where
  "offset_band_id p b = (if b = NIR then Inr 8 else py_int (s2_band_id (product_type p) b))"

text \<open>The two paths queried: \<^verbatim>\<open>.//{prefix}QUANTIFICATION_VALUE\<close> and
  \<^verbatim>\<open>.//{prefix}ADD_OFFSET[@band_id = '{band_id}']\<close>.\<close>

definition quantif_path :: "s2_product_type \<Rightarrow> string" where
  "quantif_path t = ''.//'' @ quantif_prefix t @ ''QUANTIFICATION_VALUE''"

definition offset_path :: "s2_product_type \<Rightarrow> nat \<Rightarrow> string" where
  "offset_path t band_id =
     ''.//'' @ offset_prefix t @ ''ADD_OFFSET[@band_id = '' @ [CHR 0x27] @ str_nat band_id
       @ [CHR 0x27] @ '']''"

definition read_offset :: "s2_product \<Rightarrow> element \<Rightarrow> band \<Rightarrow> error + real" where
  "read_offset p doc b =
     not_found (offset_prefix (product_type p) @ ''ADD_OFFSET not found in datatake metadata!'')
       (case offset_band_id p b of
          Inl e \<Rightarrow> Inl e
        | Inr band_id \<Rightarrow> py_float (el_findtext doc (offset_path (product_type p) band_id)))"

definition read_calibration :: "s2_product \<Rightarrow> band \<Rightarrow> error + real \<times> real" where
  "read_calibration p b =
     (case datatake_mtd p of
        Inl e \<Rightarrow> Inl e
      | Inr doc \<Rightarrow>
          (case not_found
                  (quantif_prefix (product_type p)
                     @ ''QUANTIFICATION_VALUE not found in datatake metadata!'')
                  (py_float (el_findtext doc (quantif_path (product_type p)))) of
             Inl e \<Rightarrow> Inl e
           | Inr quantif_value \<Rightarrow>
               if processing_baseline p < 4 then Inr (0, quantif_value)
               else (case read_offset p doc b of
                       Inl e \<Rightarrow> Inl e
                     | Inr offset \<Rightarrow> Inr (offset, quantif_value))))"

text \<open>The outer \<^verbatim>\<open>except InvalidProductError\<close>: the constants used without a datatake file.\<close>

definition calibration :: "s2_product \<Rightarrow> band \<Rightarrow> error + real \<times> real" where
  "calibration p b =
     (case read_calibration p b of
        Inl (InvalidProductError msg) \<Rightarrow>
          Inr (if processing_baseline p < 4 then 0 else - 1000, 10000)
      | r \<Rightarrow> r)"

text \<open>
  \<^verbatim>\<open>band_arr = (band_arr + offset) / quantif_value\<close> is array arithmetic and never
  raises; \<^verbatim>\<open>(self.base_no_data_val + offset) / quantif_value\<close> divides two Python
  floats and raises \<^verbatim>\<open>ZeroDivisionError\<close> on a zero quantification value. The final
  \<^verbatim>\<open>astype(np.float32)\<close> only rounds and is the identity here.
\<close>

definition rescale :: "real \<Rightarrow> real \<Rightarrow> raster \<Rightarrow> raster" where
  "rescale offset quantif_value band_arr =
     map (map (\<lambda>x. fdiv (fadd x (Fin offset)) (Fin quantif_value))) band_arr"

definition to_reflectance ::
    "s2_product \<Rightarrow> raster \<Rightarrow> string \<Rightarrow> band \<Rightarrow> s2_state \<Rightarrow> (error + raster) \<times> s2_state" where
  "to_reflectance p band_arr path b st =
     (if endswith path ''.jp2'' then
        (case calibration p b of
           Inl e \<Rightarrow> (Inl e, st)
         | Inr (offset, quantif_value) \<Rightarrow>
             if quantif_value = 0 then (Inl ZeroDivisionError, st)
             else (Inr (rescale offset quantif_value band_arr),
                   st\<lparr>no_data_val := (no_data_val st)
                        (b \<mapsto> (base_no_data_val st + offset) / quantif_value)\<rparr>))
      else (Inr band_arr, st))"

subsection \<open>Invalid pixels, processing baseline below 4.0\<close>

text \<open>
  \<^verbatim>\<open>features.rasterize(shapes, out_shape=(height, width), fill, default_value)\<close>: a
  two-dimensional array holding \<open>default_value\<close> at the pixels some shape covers and
  \<open>fill\<close> elsewhere.
\<close>

definition features_rasterize :: "shape list \<Rightarrow> nat \<Rightarrow> nat \<Rightarrow> nat \<Rightarrow> nat \<Rightarrow> nat list list" where
  "features_rasterize shapes height width fill default_value =
     map (\<lambda>r. map (\<lambda>c. if list_ex (\<lambda>g. (r, c) \<in> set g) shapes then default_value else fill)
                [0..<width])
         [0..<height]"

definition rio_height :: "raster \<Rightarrow> nat" where
  "rio_height band_arr = length band_arr"

definition rio_width :: "raster \<Rightarrow> nat" where
  "rio_width band_arr = (case band_arr of [] \<Rightarrow> 0 | row # rest \<Rightarrow> length row)"

text \<open>
  An integer mask array with its shape: \<^verbatim>\<open>features.rasterize\<close> gives (height, width),
  \<^verbatim>\<open>np.where(band_arr == 0, 1, 0)\<close> keeps the band's (1, height, width).
\<close>

datatype mask = Mask2 "nat list list" | Mask3 "nat list list list"

definition null_pixels :: "raster \<Rightarrow> mask" where
  "null_pixels band_arr = Mask3 [map (map (\<lambda>x. if x = Fin 0 then 1 else 0)) band_arr]"

text \<open>
  \<^verbatim>\<open>mask[mask_pix] = value\<close> with \<^verbatim>\<open>mask_pix\<close> an array of dtype \<^verbatim>\<open>uint8\<close>: numpy
  reads an integer array as indices along the first axis (only a boolean array selects
  pixel by pixel). Every entry of \<^verbatim>\<open>mask_pix\<close> must be below the length of that axis, or
  the assignment raises \<^verbatim>\<open>IndexError\<close>; each slice named by an entry is filled with
  \<open>value\<close>.
\<close>

definition fill_slices :: "nat list \<Rightarrow> ('a \<Rightarrow> 'a) \<Rightarrow> 'a list \<Rightarrow> 'a list" where
  "fill_slices idx fill xs = map (\<lambda>(k, x). if k \<in> set idx then fill x else x) (enumerate 0 xs)"

fun index_assign :: "mask \<Rightarrow> nat list list \<Rightarrow> nat \<Rightarrow> error + mask" where
  "index_assign (Mask2 rows) mask_pix v =
     (if list_all (\<lambda>i. i < length rows) (concat mask_pix)
      then Inr (Mask2 (fill_slices (concat mask_pix) (map (\<lambda>x. v)) rows))
      else Inl IndexError)"
| "index_assign (Mask3 planes) mask_pix v =
     (if list_all (\<lambda>i. i < length planes) (concat mask_pix)
      then Inr (Mask3 (fill_slices (concat mask_pix) (map (map (\<lambda>x. v))) planes))
      else Inl IndexError)"

text \<open>
  The first step of both \<^verbatim>\<open>_manage_invalid_pixels_lt_4_0\<close> and
  \<^verbatim>\<open>_manage_nodata_lt_4_0\<close>, which the source writes out twice: the detector footprint
  rasterized with the outside as invalid, or, when the footprint layer is empty, a warning
  and the pixels equal to 0.
\<close>

definition detector_nodata :: "s2_product \<Rightarrow> gdf \<Rightarrow> raster \<Rightarrow> log \<Rightarrow> mask \<times> log" where
  "detector_nodata p nodata_det band_arr lg =
     (if length nodata_det > 0 then
        (Mask2 (features_rasterize (map geometry nodata_det) (rio_height band_arr)
                  (rio_width band_arr) (mask_true p) (mask_false p)), lg)
      else
        (null_pixels band_arr,
         log_warning ''Empty detector footprint (DETFOO) vector. Nodata will be set where the pixels are null.'' lg))"

text \<open>
  \<^verbatim>\<open>_set_nodata_mask\<close> belongs to the optical base class; it is the parameter
  \<open>set_nodata_mask\<close>, applied to the band and the final mask.
\<close>

definition manage_nodata_lt_4_0 ::
    "(raster \<Rightarrow> mask \<Rightarrow> 'r) \<Rightarrow> s2_product \<Rightarrow> raster \<Rightarrow> band \<Rightarrow> log \<Rightarrow> (error + 'r) \<times> log" where
  "manage_nodata_lt_4_0 set_nodata_mask p band_arr b lg =
     (case gml_mask p GmlFOOTPRINT (Some b) of
        Inl e \<Rightarrow> (Inl e, lg)
      | Inr nodata_det \<Rightarrow>
          (case detector_nodata p nodata_det band_arr lg of
             (m, lg') \<Rightarrow> (Inr (set_nodata_mask band_arr m), lg')))"

text \<open>
  \<^verbatim>\<open>_manage_invalid_pixels_lt_4_0\<close>, as the source runs. The NODATA layer keeps its
  \<^verbatim>\<open>QT_NODATA_PIXELS\<close> features. The DEFECT, SATURA and TECQUA layers are opened, and a
  failure to open one is raised; the source means to merge them
  (\<^verbatim>\<open>nodata_pix.append(...)\<close>, the TECQUA layer cut down to \<^verbatim>\<open>MSI_LOST\<close> and
  \<^verbatim>\<open>MSI_DEG\<close>), but \<^verbatim>\<open>append\<close> returns a new frame that the source drops, so they do
  not reach the mask.
\<close>

definition merge_nodata_pix ::
    "(raster \<Rightarrow> mask \<Rightarrow> 'r) \<Rightarrow> s2_product \<Rightarrow> raster \<Rightarrow> mask \<Rightarrow> gdf \<Rightarrow> error + 'r" where
  "merge_nodata_pix set_nodata_mask p band_arr m nodata_pix =
     (if length nodata_pix > 0 then
        (case index_assign m
                (features_rasterize (map geometry nodata_pix) (rio_height band_arr)
                   (rio_width band_arr) (mask_false p) (mask_true p))
                (mask_true p) of
           Inl e \<Rightarrow> Inl e
         | Inr m' \<Rightarrow> Inr (set_nodata_mask band_arr m'))
      else Inr (set_nodata_mask band_arr m))"

definition manage_invalid_pixels_lt_4_0 ::
    "(raster \<Rightarrow> mask \<Rightarrow> 'r) \<Rightarrow> s2_product \<Rightarrow> raster \<Rightarrow> band \<Rightarrow> log \<Rightarrow> (error + 'r) \<times> log" where
  "manage_invalid_pixels_lt_4_0 set_nodata_mask p band_arr b lg =
     (case gml_mask p GmlFOOTPRINT (Some b) of
        Inl e \<Rightarrow> (Inl e, lg)
      | Inr nodata_det \<Rightarrow>
          (case detector_nodata p nodata_det band_arr lg of
             (m, lg') \<Rightarrow>
               (case gml_mask p GmlNODATA (Some b) of
                  Inl e \<Rightarrow> (Inl e, lg')
                | Inr nodata_all \<Rightarrow>
                    (case gml_mask p GmlDEFECT (Some b) of
                       Inl e \<Rightarrow> (Inl e, lg')
                     | Inr defect \<Rightarrow>
                         (case gml_mask p GmlSATURATION (Some b) of
                            Inl e \<Rightarrow> (Inl e, lg')
                          | Inr saturation \<Rightarrow>
                              (case gml_mask p GmlQUALITY (Some b) of
                                 Inl e \<Rightarrow> (Inl e, lg')
                               | Inr tecqua \<Rightarrow>
                                   (merge_nodata_pix set_nodata_mask p band_arr m
                                      (if length nodata_all > 0
                                       then filter (\<lambda>f. gml_id f = ''QT_NODATA_PIXELS'') nodata_all
                                       else nodata_all),
                                    lg')))))))"

text \<open>The entry of a mask at a pixel of the band's plane.\<close>

fun mask_pixel :: "mask \<Rightarrow> nat \<Rightarrow> nat \<Rightarrow> nat" where
  "mask_pixel (Mask2 rows) r c = rows ! r ! c"
| "mask_pixel (Mask3 planes) r c = planes ! 0 ! r ! c"

subsection \<open>Cloud bands\<close>

definition has_cloud_band :: "band \<Rightarrow> bool" where
  "has_cloud_band b = (if b = SHADOWS then False else True)"

text \<open>
  \<^verbatim>\<open>_rasterize\<close>: the rasterized geometry, or a plane of \<^verbatim>\<open>_mask_false\<close> for an empty
  layer, handed with the band and its no-data mask to \<^verbatim>\<open>_create_mask\<close> of the optical
  base class (the parameter \<open>create_mask\<close>).
\<close>

definition rasterize ::
    "(raster \<Rightarrow> nat list list list \<Rightarrow> nat list list \<Rightarrow> 'c) \<Rightarrow> s2_product \<Rightarrow> raster \<Rightarrow> gdf
       \<Rightarrow> nat list list \<Rightarrow> 'c" where
  "rasterize create_mask p xds layer nodata_mask =
     create_mask xds
       (if layer \<noteq> [] then
          [features_rasterize (map geometry layer) (rio_height xds) (rio_width xds)
             (mask_false p) (mask_true p)]
        else [replicate (rio_height xds) (replicate (rio_width xds) (mask_false p))])
       nodata_mask"

text \<open>
  One round of the loop of \<^verbatim>\<open>_open_clouds_lt_4_0\<close>. A layer without a
  \<^verbatim>\<open>maskType\<close> column raises \<^verbatim>\<open>AttributeError\<close>, which the source turns into the
  empty layer: the filter gives the same. \<open>str_band\<close> is how the f-string renders the
  band.
\<close>

definition cloud_lt_4_0 ::
    "(raster \<Rightarrow> nat list list list \<Rightarrow> nat list list \<Rightarrow> 'c) \<Rightarrow> (band \<Rightarrow> string) \<Rightarrow> s2_product
       \<Rightarrow> raster \<Rightarrow> gdf \<Rightarrow> nat list list \<Rightarrow> band \<Rightarrow> error + 'c" where
  "cloud_lt_4_0 create_mask str_band p def_band cloud_vec nodata_mask b =
     (if b = ALL_CLOUDS then Inr (rasterize create_mask p def_band cloud_vec nodata_mask)
      else if b = CIRRUS then
        Inr (rasterize create_mask p def_band
               (filter (\<lambda>f. maskType f = Some ''CIRRUS'') cloud_vec) nodata_mask)
      else if b = CLOUDS then
        Inr (rasterize create_mask p def_band
               (filter (\<lambda>f. maskType f = Some ''OPAQUE'') cloud_vec) nodata_mask)
      else if b = RAW_CLOUDS then Inr (rasterize create_mask p def_band cloud_vec nodata_mask)
      else Inl (InvalidTypeError (''Non existing cloud band for Sentinel-2: '' @ str_band b)))"

text \<open>The \<^verbatim>\<open>for band in bands\<close> loop: it fills the dictionary and stops at the first raise.\<close>

fun clouds_loop :: "(band \<Rightarrow> error + 'c) \<Rightarrow> band list \<Rightarrow> (band \<rightharpoonup> 'c) \<Rightarrow> error + (band \<rightharpoonup> 'c)" where
  "clouds_loop one [] band_dict = Inr band_dict"
| "clouds_loop one (b # bands) band_dict =
     (case one b of
        Inl e \<Rightarrow> Inl e
      | Inr cloud \<Rightarrow> clouds_loop one bands (band_dict(b \<mapsto> cloud)))"

definition open_clouds_lt_4_0 ::
    "(raster \<Rightarrow> nat list list list \<Rightarrow> nat list list \<Rightarrow> 'c) \<Rightarrow> (band \<Rightarrow> string) \<Rightarrow> s2_product
       \<Rightarrow> band list \<Rightarrow> error + (band \<rightharpoonup> 'c)" where
  "open_clouds_lt_4_0 create_mask str_band p bands =
     (if bands \<noteq> [] then
        (case gml_mask p GmlCLOUDS None of
           Inl e \<Rightarrow> Inl e
         | Inr cloud_vec \<Rightarrow>
             (case default_band p of
                Inl e \<Rightarrow> Inl e
              | Inr def_band \<Rightarrow>
                  clouds_loop
                    (cloud_lt_4_0 create_mask str_band p def_band cloud_vec
                       (map (map (\<lambda>x. if x = NaN then 1 else 0)) def_band))
                    bands Map.empty))
      else Inr Map.empty)"

text \<open>
  \<^verbatim>\<open>_open_clouds_gt_4_0\<close>: the planes of the classification raster; plane 0 is OPAQUE,
  plane 1 is CIRRUS. Reading a plane that the raster does not have raises
  \<^verbatim>\<open>IndexError\<close>.
\<close>

definition plane :: "nat list list list \<Rightarrow> nat \<Rightarrow> error + nat list list" where
  "plane cloud_vec k = (if k < length cloud_vec then Inr (cloud_vec ! k) else Inl IndexError)"

definition cloud_gt_4_0 ::
    "(band \<Rightarrow> string) \<Rightarrow> nat list list list \<Rightarrow> band \<Rightarrow> error + nat list list list" where
  "cloud_gt_4_0 str_band cloud_vec b =
     (if b = ALL_CLOUDS then
        (case plane cloud_vec 0 of
           Inl e \<Rightarrow> Inl e
         | Inr opaque \<Rightarrow>
             (case plane cloud_vec 1 of
                Inl e \<Rightarrow> Inl e
              | Inr cirrus \<Rightarrow> Inr [map2 (map2 (\<lambda>x y. x OR y)) opaque cirrus]))
      else if b = CIRRUS then map_sum id (\<lambda>c. [c]) (plane cloud_vec 1)
      else if b = CLOUDS then map_sum id (\<lambda>c. [c]) (plane cloud_vec 0)
      else if b = RAW_CLOUDS then Inr cloud_vec
      else Inl (InvalidTypeError (''Non existing cloud band for Sentinel-2: '' @ str_band b)))"

definition open_clouds_gt_4_0 ::
    "(band \<Rightarrow> string) \<Rightarrow> s2_product \<Rightarrow> band list
       \<Rightarrow> error + (band \<rightharpoonup> nat list list list)" where
  "open_clouds_gt_4_0 str_band p bands =
     (if bands \<noteq> [] then
        (case jp2_clouds p of
           Inl e \<Rightarrow> Inl e
         | Inr cloud_vec \<Rightarrow> clouds_loop (cloud_gt_4_0 str_band cloud_vec) bands Map.empty)
      else Inr Map.empty)"

definition open_clouds ::
    "(raster \<Rightarrow> nat list list list \<Rightarrow> nat list list \<Rightarrow> nat list list list) \<Rightarrow> (band \<Rightarrow> string)
       \<Rightarrow> s2_product \<Rightarrow> band list \<Rightarrow> error + (band \<rightharpoonup> nat list list list)" where
  "open_clouds create_mask str_band p bands =
     (if processing_baseline p < 4 then open_clouds_lt_4_0 create_mask str_band p bands
      else open_clouds_gt_4_0 str_band p bands)"

subsection \<open>\_load\_bands\<close>

text \<open>
  What a call leaves behind outside the instance: the reads and writes it asked of the
  file system, the archive and the raster library, oldest first.
\<close>

type_synonym io_log = "string list"

text \<open>
  \<^verbatim>\<open>S2Product._load_bands\<close>. \<^verbatim>\<open>_resolution_from_size\<close> and \<^verbatim>\<open>_open_bands\<close> are
  methods of the base classes, and \<^verbatim>\<open>get_band_paths\<close> walks the product's folders or
  archive: the three are parameters, the last two acting on the I/O log.
\<close>

definition s2_load_bands ::
    "(nat \<times> nat \<Rightarrow> real)
       \<Rightarrow> (band list \<Rightarrow> real option \<Rightarrow> io_log \<Rightarrow> (error + (band \<rightharpoonup> string)) \<times> io_log)
       \<Rightarrow> ((band \<rightharpoonup> string) \<Rightarrow> real option \<Rightarrow> (nat \<times> nat) option \<Rightarrow> io_log
            \<Rightarrow> (error + (band \<rightharpoonup> 'a)) \<times> io_log)
       \<Rightarrow> band list \<Rightarrow> real option \<Rightarrow> (nat \<times> nat) option \<Rightarrow> io_log
       \<Rightarrow> (error + (band \<rightharpoonup> 'a)) \<times> io_log" where
  "s2_load_bands resolution_from_size get_band_paths open_bands bands resolution size_arg io =
     (if bands = [] then (Inr Map.empty, io)
      else
        (case get_band_paths bands
                (case (resolution, size_arg) of
                   (None, Some sz) \<Rightarrow> Some (resolution_from_size sz)
                 | _ \<Rightarrow> resolution)
                io of
           (Inl e, io') \<Rightarrow> (Inl e, io')
         | (Inr band_paths, io') \<Rightarrow>
             open_bands band_paths
               (case (resolution, size_arg) of
                  (None, Some sz) \<Rightarrow> Some (resolution_from_size sz)
                | _ \<Rightarrow> resolution)
               size_arg io'))"

subsection \<open>crs\<close>

text \<open>
  Modelled from the spec: the decorator \<^verbatim>\<open>cache\<close>, imported from the package root, is
  not among the sources. The specification has the lazily computed attributes of a
  product computed on first access and memoized for the lifetime of the instance. A call
  that raises stores nothing.
\<close>

definition cache ::
    "('s \<Rightarrow> 'v option) \<Rightarrow> ('v \<Rightarrow> 's \<Rightarrow> 's) \<Rightarrow> ('s \<Rightarrow> (error + 'v) \<times> 's)
       \<Rightarrow> 's \<Rightarrow> (error + 'v) \<times> 's" where
  "cache lookup store body st =
     (case lookup st of
        Some v \<Rightarrow> (Inr v, st)
      | None \<Rightarrow>
          (case body st of
             (Inr v, st') \<Rightarrow> (Inr v, store v st')
           | (Inl e, st') \<Rightarrow> (Inl e, st')))"

text \<open>
  The memo of a Sentinel-2 instance and the reads it has caused. A coordinate reference
  system is named by the string it was built from.
\<close>

record s2_instance =
  memo_crs :: "string option"
  memo_mtd :: "element option"
  reads :: io_log

text \<open>
  \<^verbatim>\<open>read_mtd()\<close>: the read and parse of the tile metadata. It goes through
  \<^verbatim>\<open>_read_mtd\<close>, which carries the decorator; a read that raises is tried again by the
  next call.
\<close>

definition read_mtd :: "s2_product \<Rightarrow> s2_instance \<Rightarrow> (error + element) \<times> s2_instance" where
  "read_mtd p =
     cache memo_mtd (\<lambda>v st. st\<lparr>memo_mtd := Some v\<rparr>)
       (\<lambda>st. (mtd p, st\<lparr>reads := reads st @ [''read_mtd'']\<rparr>))"

text \<open>
  The projection deduced from the tile name when the metadata is broken:
  \<^verbatim>\<open>tile_name[1:3]\<close> is the zone, \<^verbatim>\<open>tile_name[3]\<close> the latitude band.
\<close>

definition tile_crs :: "string \<Rightarrow> error + string" where
  "tile_crs tile =
     (if length tile \<le> 3 then Inl IndexError
      else Inr (''epsg:32''
                @ (if (of_char (tile ! 3) :: nat) > of_char CHR ''N'' then ''6'' else ''7'')
                @ take 2 (drop 1 tile)))"

text \<open>
  The body of \<^verbatim>\<open>S2Product.crs\<close>. \<^verbatim>\<open>CRS.from_string\<close> belongs to the raster library
  and \<^verbatim>\<open>super().crs()\<close> to the optical base class; both are parameters.
\<close>

definition s2_crs_body ::
    "(string option \<Rightarrow> error + string) \<Rightarrow> (s2_instance \<Rightarrow> (error + string) \<times> s2_instance)
       \<Rightarrow> s2_product \<Rightarrow> s2_instance \<Rightarrow> (error + string) \<times> s2_instance" where
  "s2_crs_body from_string super_crs p st =
     (if processing_baseline p < 207 / 100 then
        (case read_mtd p st of
           (r, st') \<Rightarrow>
             (case (case r of
                      Inl e \<Rightarrow> Inl e
                    | Inr doc \<Rightarrow> from_string (text_of (el_findtext doc ''.//HORIZONTAL_CS_CODE''))) of
                Inl (InvalidProductError msg) \<Rightarrow>
                  (case tile_crs (tile_name p) of
                     Inl e \<Rightarrow> (Inl e, st')
                   | Inr code \<Rightarrow> (from_string (Some code), st'))
              | res \<Rightarrow> (res, st')))
      else super_crs st)"

definition s2_crs ::
    "(string option \<Rightarrow> error + string) \<Rightarrow> (s2_instance \<Rightarrow> (error + string) \<times> s2_instance)
       \<Rightarrow> s2_product \<Rightarrow> s2_instance \<Rightarrow> (error + string) \<times> s2_instance" where
  "s2_crs from_string super_crs p =
     cache memo_crs (\<lambda>v st. st\<lparr>memo_crs := Some v\<rparr>) (s2_crs_body from_string super_crs p)"

subsection \<open>get\_cloud\_cover, get\_mean\_sun\_angles, get\_orbit\_direction\<close>

text \<open>
  Each getter returns its value (or the exception that reaches the caller) and the log.
  The decorator \<^verbatim>\<open>cache\<close> on them is not part of the bodies modelled here: these are
  the first calls.

  \<^verbatim>\<open>get_cloud_cover\<close>: one \<^verbatim>\<open>try\<close> around the read and the conversion, with
  \<^verbatim>\<open>except (InvalidProductError, TypeError)\<close>.
\<close>

definition get_cloud_cover :: "s2_product \<Rightarrow> log \<Rightarrow> (error + real) \<times> log" where
  "get_cloud_cover p lg =
     (case (case mtd p of
              Inl e \<Rightarrow> Inl e
            | Inr doc \<Rightarrow> py_float (el_findtext doc ''.//CLOUDY_PIXEL_PERCENTAGE'')) of
        Inr cc \<Rightarrow> (Inr cc, lg)
      | Inl (InvalidProductError msg) \<Rightarrow>
          (Inr 0, log_warning
             ''CLOUDY_PIXEL_PERCENTAGE not found in metadata! Cloud coverage set to 0.'' lg)
      | Inl TypeError \<Rightarrow>
          (Inr 0, log_warning
             ''CLOUDY_PIXEL_PERCENTAGE not found in metadata! Cloud coverage set to 0.'' lg)
      | Inl e \<Rightarrow> (Inl e, lg))"

text \<open>
  \<^verbatim>\<open>get_mean_sun_angles\<close>: \<^verbatim>\<open>root.find(".//Mean_Sun_Angle")\<close> is \<^verbatim>\<open>None\<close> when the
  element is missing, and \<^verbatim>\<open>None.findtext\<close> is an \<^verbatim>\<open>AttributeError\<close>, which neither
  handler catches. The zenith angle is converted first. The result is
  (azimuth, zenith).
\<close>

definition read_sun_angles :: "s2_product \<Rightarrow> error + real \<times> real" where
  "read_sun_angles p =
     (case mtd p of
        Inl e \<Rightarrow> Inl e
      | Inr doc \<Rightarrow>
          not_found ''Azimuth or Zenith angles not found in metadata!''
            (case el_find doc ''.//Mean_Sun_Angle'' of
               None \<Rightarrow> Inl (AttributeError ''findtext'')
             | Some mean_sun_angles \<Rightarrow>
                 (case py_float (el_findtext mean_sun_angles ''ZENITH_ANGLE'') of
                    Inl e \<Rightarrow> Inl e
                  | Inr zenith_angle \<Rightarrow>
                      (case py_float (el_findtext mean_sun_angles ''AZIMUTH_ANGLE'') of
                         Inl e \<Rightarrow> Inl e
                       | Inr azimuth_angle \<Rightarrow> Inr (azimuth_angle, zenith_angle)))))"

definition get_mean_sun_angles :: "s2_product \<Rightarrow> log \<Rightarrow> (error + real \<times> real) \<times> log" where
  "get_mean_sun_angles p lg =
     (case read_sun_angles p of
        Inl (InvalidProductError msg) \<Rightarrow>
          (Inr (0, 0), log_warning (msg @ '': setting sun angles to (0, 0).'') lg)
      | r \<Rightarrow> (r, lg))"

text \<open>
  \<^verbatim>\<open>OrbitDirection\<close> (ASCENDING / DESCENDING) is declared in the product base module; the
  value of each member is its name. \<^verbatim>\<open>from_value\<close> comes from the enumeration's library
  base class: it returns the member whose value is the argument and raises
  \<^verbatim>\<open>ValueError\<close> when there is none, the exception that \<^verbatim>\<open>_set_sensor_mode\<close> of the
  RADARSAT-2 class catches around the same call. \<^verbatim>\<open>None\<close> is the value of no member.
\<close>

datatype orbit_direction = ASCENDING | DESCENDING

definition from_value :: "string option \<Rightarrow> error + orbit_direction" where
  "from_value val =
     (if val = Some ''ASCENDING'' then Inr ASCENDING
      else if val = Some ''DESCENDING'' then Inr DESCENDING
      else Inl ValueError)"

text \<open>
  \<^verbatim>\<open>get_orbit_direction\<close>: the inner handler \<^verbatim>\<open>except TypeError\<close> turns a
  \<^verbatim>\<open>TypeError\<close> of the lookup into \<^verbatim>\<open>InvalidProductError\<close>, and the outer handler
  answers \<^verbatim>\<open>InvalidProductError\<close> with DESCENDING. Nothing is logged.
\<close>

definition read_orbit_direction :: "s2_product \<Rightarrow> error + orbit_direction" where
  "read_orbit_direction p =
     (case datatake_mtd p of
        Inl e \<Rightarrow> Inl e
      | Inr doc \<Rightarrow>
          not_found ''SENSING_ORBIT_DIRECTION not found in metadata!''
            (from_value (text_of (el_findtext doc ''.//SENSING_ORBIT_DIRECTION''))))"

definition get_orbit_direction :: "s2_product \<Rightarrow> log \<Rightarrow> (error + orbit_direction) \<times> log" where
  "get_orbit_direction p lg =
     (case read_orbit_direction p of
        Inl (InvalidProductError msg) \<Rightarrow> (Inr DESCENDING, lg)
      | r \<Rightarrow> (r, lg))"

section \<open>products/optical/s3\_product.py\<close>

text \<open>
  A Sentinel-3 product: the names of its tie-point geocoding file and subdatasets, and what
  \<^verbatim>\<open>rasters.read\<close> answers for a file and a subdataset (already rescaled).
\<close>

record s3_product =
  tie_geo_file :: string
  tie_lat_nc_name :: string
  tie_lon_nc_name :: string
  nc_content :: "string \<Rightarrow> string \<Rightarrow> error + raster"

text \<open>\<^verbatim>\<open>_read_nc\<close>: one read of the NetCDF subdataset.\<close>

definition read_nc :: "s3_product \<Rightarrow> string \<Rightarrow> string \<Rightarrow> io_log \<Rightarrow> (error + raster) \<times> io_log" where
  "read_nc p filename subdataset io =
     (nc_content p filename subdataset, io @ [''netcdf:'' @ filename @ '':'' @ subdataset])"

text \<open>
  \<^verbatim>\<open>S3Product.crs\<close>, which carries no decorator: the tie-point latitudes and longitudes
  are read, their shapes compared, and the projection deduced from the middle pixel.
  \<^verbatim>\<open>vectors.corresponding_utm_projection\<close> and \<^verbatim>\<open>CRS.from_string\<close> are library
  functions and are parameters.
\<close>

definition middle_pixel :: "raster \<Rightarrow> error + fnum" where
  "middle_pixel a =
     (if rio_height a div 2 < length a \<and> rio_width a div 2 < length (a ! (rio_height a div 2))
      then Inr (a ! (rio_height a div 2) ! (rio_width a div 2))
      else Inl IndexError)"

definition s3_crs ::
    "(fnum \<Rightarrow> fnum \<Rightarrow> string) \<Rightarrow> (string option \<Rightarrow> error + string) \<Rightarrow> s3_product \<Rightarrow> io_log
       \<Rightarrow> (error + string) \<times> io_log" where
  "s3_crs corresponding_utm_projection from_string p io =
     (case read_nc p (tie_geo_file p) (tie_lat_nc_name p) io of
        (Inl e, io1) \<Rightarrow> (Inl e, io1)
      | (Inr lat, io1) \<Rightarrow>
          (case read_nc p (tie_geo_file p) (tie_lon_nc_name p) io1 of
             (Inl e, io2) \<Rightarrow> (Inl e, io2)
           | (Inr lon, io2) \<Rightarrow>
               (if (rio_height lat, rio_width lat) \<noteq> (rio_height lon, rio_width lon)
                then (Inl AssertionError, io2)
                else
                  (case middle_pixel lat of
                     Inl e \<Rightarrow> (Inl e, io2)
                   | Inr mid_lat \<Rightarrow>
                       (case middle_pixel lon of
                          Inl e \<Rightarrow> (Inl e, io2)
                        | Inr mid_lon \<Rightarrow>
                            (from_string (Some (corresponding_utm_projection mid_lat mid_lon)),
                             io2))))))"

text \<open>
  \<^verbatim>\<open>S3Product._load_bands\<close>: as for Sentinel-2, after the same first test. (The
  \<^verbatim>\<open>isinstance\<close> test that wraps a single band into a list changes nothing for a list.)
\<close>

definition s3_load_bands ::
    "(nat \<times> nat \<Rightarrow> real)
       \<Rightarrow> (band list \<Rightarrow> real option \<Rightarrow> io_log \<Rightarrow> (error + (band \<rightharpoonup> string)) \<times> io_log)
       \<Rightarrow> ((band \<rightharpoonup> string) \<Rightarrow> real option \<Rightarrow> (nat \<times> nat) option \<Rightarrow> io_log
            \<Rightarrow> (error + (band \<rightharpoonup> 'a)) \<times> io_log)
       \<Rightarrow> band list \<Rightarrow> real option \<Rightarrow> (nat \<times> nat) option \<Rightarrow> io_log
       \<Rightarrow> (error + (band \<rightharpoonup> 'a)) \<times> io_log" where
  "s3_load_bands resolution_from_size get_band_paths open_bands bands resolution size_arg io =
     (if bands = [] then (Inr Map.empty, io)
      else
        (case get_band_paths bands
                (case (resolution, size_arg) of
                   (None, Some sz) \<Rightarrow> Some (resolution_from_size sz)
                 | _ \<Rightarrow> resolution)
                io of
           (Inl e, io') \<Rightarrow> (Inl e, io')
         | (Inr band_paths, io') \<Rightarrow>
             open_bands band_paths
               (case (resolution, size_arg) of
                  (None, Some sz) \<Rightarrow> Some (resolution_from_size sz)
                | _ \<Rightarrow> resolution)
               size_arg io'))"

section \<open>products/sar/rs2\_product.py\<close>

datatype rs2_product_type = SLC | SGX | SGF | SCN | SCW | SCF | SCS | SSG | SPG








section \<open>Example products\<close>

text \<open>
  Concrete products on which the theorems below are instantiated. The datatake document
  answers the quantification value and the offset of band 8 (the element
  \<^verbatim>\<open>RADIO_ADD_OFFSET\<close> with \<^verbatim>\<open>band_id\<close> 8); nothing else is in it.
\<close>

definition example_datatake :: element where
  "example_datatake =
     Element ''n1:Level-1C_User_Product'' [] (\<lambda>q. None)
       (\<lambda>q. if q = ''.//QUANTIFICATION_VALUE'' then Text ''10000'' (Some 10000)
            else if q = ''.//RADIO_ADD_OFFSET[@band_id = '' @ [CHR 0x27] @ ''8'' @ [CHR 0x27] @ '']''
                 then Text ''-1000'' (Some (- 1000))
            else NoText)"

definition example_s2 :: "real \<Rightarrow> error + element \<Rightarrow> error + element \<Rightarrow> s2_product" where
  "example_s2 baseline m d =
     \<lparr>product_type = L1C, processing_baseline = baseline, tile_name = ''T30TTK'',
      mtd = m, datatake_mtd = d, gml_mask = (\<lambda>k b. Inr []),
      jp2_clouds = Inr [[[0, 1]], [[1, 0]]], default_band = Inr [[Fin 1, NaN]],
      mask_true = 1, mask_false = 0\<rparr>"

definition example_state :: s2_state where
  "example_state = \<lparr>base_no_data_val = 0, no_data_val = Map.empty\<rparr>"

text \<open>
  A tile metadata document whose cloud percentage is not a number and whose
  \<^verbatim>\<open>Mean_Sun_Angle\<close> element has a zenith angle but no azimuth angle; and one with
  neither a cloud percentage nor angle texts.
\<close>

definition example_tile_mtd :: element where
  "example_tile_mtd =
     Element ''n1:Level-1C_Tile_ID'' []
       (\<lambda>q. if q = ''.//Mean_Sun_Angle''
            then Some (Element ''Mean_Sun_Angle'' [] (\<lambda>q. None)
                   (\<lambda>q. if q = ''ZENITH_ANGLE'' then Text ''32'' (Some 32)
                        else NoText))
            else None)
       (\<lambda>q. if q = ''.//CLOUDY_PIXEL_PERCENTAGE'' then Text ''n/a'' None else NoText)"

definition example_empty_mtd :: element where
  "example_empty_mtd =
     Element ''n1:Level-1C_Tile_ID'' []
       (\<lambda>q. if q = ''.//Mean_Sun_Angle''
            then Some (Element ''Mean_Sun_Angle'' [] (\<lambda>q. None) (\<lambda>q. NoText))
            else None)
       (\<lambda>q. NoText)"

text \<open>
  A product below baseline 4.0 with empty mask layers, but for one
  \<^verbatim>\<open>QT_NODATA_PIXELS\<close> feature of the NODATA layer that covers the pixel (0, 0).
\<close>

definition example_s2_nodata_pix :: s2_product where
  "example_s2_nodata_pix =
     (example_s2 (209 / 100) (Inr example_tile_mtd) (Inr example_datatake))
       \<lparr>gml_mask := (\<lambda>k b. if k = GmlNODATA
                           then Inr [\<lparr>gml_id = ''QT_NODATA_PIXELS'', maskType = None,
                                      geometry = [(0, 0)]\<rparr>]
                           else Inr [])\<rparr>"

text \<open>
  A Sentinel-3 product with one row of two tie points, a fresh Sentinel-2 instance, and a
  \<^verbatim>\<open>CRS.from_string\<close> that accepts every string and rejects \<^verbatim>\<open>None\<close>.
\<close>

definition example_from_string :: "string option \<Rightarrow> error + string" where
  "example_from_string x = (case x of None \<Rightarrow> Inl TypeError | Some code \<Rightarrow> Inr code)"

definition example_s3 :: s3_product where
  "example_s3 =
     \<lparr>tie_geo_file = ''tie_geo_coordinates.nc'', tie_lat_nc_name = ''latitude'',
      tie_lon_nc_name = ''longitude'',
      nc_content = (\<lambda>f sub. if sub = ''latitude'' then Inr [[Fin 45, Fin 46]]
                             else Inr [[Fin 7, Fin 8]])\<rparr>"

definition example_instance :: s2_instance where
  "example_instance = \<lparr>memo_crs = None, memo_mtd = None, reads = []\<rparr>"



section \<open>Properties of the spectral indices\<close>

text \<open>
  C1. The claim: NDVI is the normalized difference (NIR - RED) / (NIR + RED) at every
  valid pixel. The module's \<^verbatim>\<open>NDVI\<close> returns \<^verbatim>\<open>np.divide(bands[NIR], bands[RED])\<close>,
  the plain ratio, although its docstring names the normalized difference and its
  siblings (\<^verbatim>\<open>GNDVI\<close>, \<^verbatim>\<open>NDGRI\<close>) go through \<^verbatim>\<open>_norm_diff\<close>. On NIR = 3, RED = 1
  the code yields 3 where the normalized difference is 1/2.
\<close>

theorem NDVI_is_plain_ratio:
  "NDVI [NIR \<mapsto> [Fin 3], RED \<mapsto> [Fin 1]] = Inr [Fin 3]
   \<and> norm_diff [Fin 3] [Fin 1] = [Fin (1 / 2)]
   \<and> GNDVI [NIR \<mapsto> [Fin 3], GREEN \<mapsto> [Fin 1]] = Inr [Fin (1 / 2)]"
  by (simp add: NDVI_def GNDVI_def index2_def getitem_def np_divide_def norm_diff_def
      np_subtract_def np_add_def fsub_def)

lemma fadd_zero_cases:
  "fadd u v = Fin 0 \<Longrightarrow> \<exists>r. u = Fin r \<and> v = Fin (- r)"
  by (cases u; cases v) auto

lemma norm_diff_nth:
  "i < length b1 \<Longrightarrow> i < length b2 \<Longrightarrow>
   norm_diff b1 b2 ! i = fdiv (fsub (b1 ! i) (b2 ! i)) (fadd (b1 ! i) (b2 ! i))"
  by (simp add: norm_diff_def np_divide_def np_subtract_def np_add_def)

text \<open>
  C7 (as stated). The claim: a zero denominator never raises and the result carries the
  no-data sentinel at that pixel. The division is numpy's: a non-zero numerator over
  zero is an infinity, not NaN. RED = 1 over GREEN = 0 in \<^verbatim>\<open>RGI\<close>, and
  \<^verbatim>\<open>_norm_diff\<close> on 1 and -1, both give +inf.
\<close>

theorem zero_denominator_gives_infinity:
  "RGI [RED \<mapsto> [Fin 1], GREEN \<mapsto> [Fin 0]] = Inr [PInf]
   \<and> norm_diff [Fin 1] [Fin (- 1)] = [PInf]
   \<and> PInf \<noteq> nodata"
  by (simp add: RGI_def index2_def getitem_def np_divide_def norm_diff_def
      np_subtract_def np_add_def fsub_def nodata_def)

text \<open>
  C7 (amended). A division whose denominator is zero at a pixel never raises: the index
  functions return an array whenever their bands are present. At that pixel the result is
  the no-data sentinel exactly when the numerator is zero or no-data there, and an
  infinity for every other finite numerator (an infinite numerator stays infinite). For
  \<^verbatim>\<open>_norm_diff\<close>, whose denominator is band_1 + band_2, the pixel is no-data when
  band_1 is zero there and an infinity otherwise.
\<close>

theorem zero_denominator_ieee:
  assumes "i < length x" and "i < length y"
  shows "(y ! i = Fin 0 \<longrightarrow>
            (if x ! i = Fin 0 \<or> x ! i = NaN then np_divide x y ! i = nodata
             else is_inf (np_divide x y ! i)))
       \<and> (fadd (x ! i) (y ! i) = Fin 0 \<longrightarrow>
            (if x ! i = Fin 0 then norm_diff x y ! i = nodata
             else is_inf (norm_diff x y ! i)))
       \<and> (bands RED = Some x \<and> bands GREEN = Some y \<longrightarrow> RGI bands = Inr (np_divide x y))
       \<and> (bands GREEN = Some x \<and> bands RED = Some y \<longrightarrow> NDGRI bands = Inr (norm_diff x y))"
proof -
  have quot: "np_divide x y ! i = fdiv (x ! i) (y ! i)"
    using assms by (simp add: np_divide_def)
  have a: "y ! i = Fin 0 \<longrightarrow>
            (if x ! i = Fin 0 \<or> x ! i = NaN then np_divide x y ! i = nodata
             else is_inf (np_divide x y ! i))"
    unfolding quot by (cases "x ! i") (auto simp: nodata_def)
  have b: "fadd (x ! i) (y ! i) = Fin 0 \<longrightarrow>
            (if x ! i = Fin 0 then norm_diff x y ! i = nodata
             else is_inf (norm_diff x y ! i))"
  proof
    assume z: "fadd (x ! i) (y ! i) = Fin 0"
    then obtain r where r: "x ! i = Fin r" "y ! i = Fin (- r)"
      using fadd_zero_cases by blast
    show "if x ! i = Fin 0 then norm_diff x y ! i = nodata else is_inf (norm_diff x y ! i)"
      using assms r by (simp add: norm_diff_nth fsub_def nodata_def)
  qed
  have c: "bands RED = Some x \<and> bands GREEN = Some y \<longrightarrow> RGI bands = Inr (np_divide x y)"
    by (simp add: RGI_def index2_def getitem_def)
  have d: "bands GREEN = Some x \<and> bands RED = Some y \<longrightarrow> NDGRI bands = Inr (norm_diff x y)"
    by (simp add: NDGRI_def index2_def getitem_def)
  from a b c d show ?thesis by blast
qed

theorem zero_denominator_ieee_witness:
  "np_divide [Fin 0, Fin 2] [Fin 0, Fin 0] ! 0 = nodata
   \<and> is_inf (np_divide [Fin 0, Fin 2] [Fin 0, Fin 0] ! 1)
   \<and> is_inf (norm_diff [Fin 2] [Fin (- 2)] ! 0)
   \<and> RGI [RED \<mapsto> [Fin 0, Fin 2], GREEN \<mapsto> [Fin 0, Fin 0]]
       = Inr (np_divide [Fin 0, Fin 2] [Fin 0, Fin 0])"
  using zero_denominator_ieee [of 0 "[Fin 0, Fin 2]" "[Fin 0, Fin 0]"
          "[RED \<mapsto> [Fin 0, Fin 2], GREEN \<mapsto> [Fin 0, Fin 0]]"]
        zero_denominator_ieee [of 1 "[Fin 0, Fin 2]" "[Fin 0, Fin 0]" Map.empty]
        zero_denominator_ieee [of 0 "[Fin 2]" "[Fin (- 2)]" Map.empty]
  by simp

section \<open>Properties of the Sentinel-2 product\<close>

lemma str_nat_digit: "n < 10 \<Longrightarrow> str_nat n = [digit_char n]"
  by (cases n) (simp_all add: str_nat_def)

lemma calibration_unreadable:
  "datatake_mtd p = Inl (InvalidProductError msg) \<Longrightarrow>
   calibration p b = Inr (if processing_baseline p < 4 then 0 else - 1000, 10000)"
  by (simp add: calibration_def read_calibration_def)

lemma calibration_lt_4:
  "datatake_mtd p = Inr doc \<Longrightarrow>
   el_findtext doc (quantif_path (product_type p)) = Text s (Some q) \<Longrightarrow>
   processing_baseline p < 4 \<Longrightarrow> calibration p b = Inr (0, q)"
  by (simp add: calibration_def read_calibration_def not_found_def)

lemma calibration_ge_4:
  "datatake_mtd p = Inr doc \<Longrightarrow>
   el_findtext doc (quantif_path (product_type p)) = Text s (Some q) \<Longrightarrow>
   \<not> processing_baseline p < 4 \<Longrightarrow> offset_band_id p b = Inr k \<Longrightarrow>
   el_findtext doc (offset_path (product_type p) k) = Text s' (Some off) \<Longrightarrow>
   calibration p b = Inr (off, q)"
  by (simp add: calibration_def read_calibration_def not_found_def read_offset_def)

lemma to_reflectance_calibrated:
  "endswith path ''.jp2'' \<Longrightarrow> calibration p b = Inr (off, q) \<Longrightarrow> q \<noteq> 0 \<Longrightarrow>
   to_reflectance p band_arr path b st =
     (Inr (rescale off q band_arr),
      st\<lparr>no_data_val := (no_data_val st)(b \<mapsto> (base_no_data_val st + off) / q)\<rparr>)"
  by (simp add: to_reflectance_def)

lemma rescale_pixel:
  "r < length band_arr \<Longrightarrow> c < length (band_arr ! r) \<Longrightarrow>
   rescale off q band_arr ! r ! c = fdiv (fadd (band_arr ! r ! c) (Fin off)) (Fin q)"
  by (simp add: rescale_def)

text \<open>
  C2. For a band path ending in \<^verbatim>\<open>.jp2\<close>, \<^verbatim>\<open>_to_reflectance\<close> returns
  (raw + offset) / quantification value at every pixel and records the band's no-data
  value as (raw no-data value + offset) / quantification value. When the datatake metadata
  cannot be read (\<^verbatim>\<open>InvalidProductError\<close>), the offset is 0 below baseline 4.0 and -1000
  from 4.0 on, with the quantification value 10000. When it can be read, the quantification
  value comes from the metadata, and the offset is 0 below baseline 4.0 and the band's
  \<^verbatim>\<open>ADD_OFFSET\<close> from 4.0 on.
\<close>

theorem to_reflectance_formula:
  assumes jp2: "endswith path ''.jp2''"
  shows "(\<forall>msg. datatake_mtd p = Inl (InvalidProductError msg) \<longrightarrow>
            to_reflectance p band_arr path b st =
              (Inr (rescale (if processing_baseline p < 4 then 0 else - 1000) 10000 band_arr),
               st\<lparr>no_data_val := (no_data_val st)
                    (b \<mapsto> (base_no_data_val st
                              + (if processing_baseline p < 4 then 0 else - 1000)) / 10000)\<rparr>))
       \<and> (\<forall>doc s q. datatake_mtd p = Inr doc
              \<and> el_findtext doc (quantif_path (product_type p)) = Text s (Some q) \<and> q \<noteq> 0
              \<and> processing_baseline p < 4 \<longrightarrow>
            to_reflectance p band_arr path b st =
              (Inr (rescale 0 q band_arr),
               st\<lparr>no_data_val := (no_data_val st)(b \<mapsto> (base_no_data_val st + 0) / q)\<rparr>))
       \<and> (\<forall>doc s q k s' off. datatake_mtd p = Inr doc
              \<and> el_findtext doc (quantif_path (product_type p)) = Text s (Some q) \<and> q \<noteq> 0
              \<and> \<not> processing_baseline p < 4 \<and> offset_band_id p b = Inr k
              \<and> el_findtext doc (offset_path (product_type p) k) = Text s' (Some off) \<longrightarrow>
            to_reflectance p band_arr path b st =
              (Inr (rescale off q band_arr),
               st\<lparr>no_data_val := (no_data_val st)(b \<mapsto> (base_no_data_val st + off) / q)\<rparr>))
       \<and> (\<forall>off q r c x. r < length band_arr \<and> c < length (band_arr ! r)
              \<and> band_arr ! r ! c = Fin x \<and> q \<noteq> 0 \<longrightarrow>
            rescale off q band_arr ! r ! c = Fin ((x + off) / q))"
proof -
  have a: "\<And>msg. datatake_mtd p = Inl (InvalidProductError msg) \<Longrightarrow>
            to_reflectance p band_arr path b st =
              (Inr (rescale (if processing_baseline p < 4 then 0 else - 1000) 10000 band_arr),
               st\<lparr>no_data_val := (no_data_val st)
                    (b \<mapsto> (base_no_data_val st
                              + (if processing_baseline p < 4 then 0 else - 1000)) / 10000)\<rparr>)"
    using jp2 by (simp add: calibration_unreadable to_reflectance_calibrated)
  have b: "\<And>doc s q. datatake_mtd p = Inr doc
              \<and> el_findtext doc (quantif_path (product_type p)) = Text s (Some q) \<and> q \<noteq> 0
              \<and> processing_baseline p < 4 \<Longrightarrow>
            to_reflectance p band_arr path b st =
              (Inr (rescale 0 q band_arr),
               st\<lparr>no_data_val := (no_data_val st)(b \<mapsto> (base_no_data_val st + 0) / q)\<rparr>)"
    using jp2 calibration_lt_4 [of p _ _ _ b] to_reflectance_calibrated [of path p b 0]
    by blast
  have c: "\<And>doc s q k s' off. datatake_mtd p = Inr doc
              \<and> el_findtext doc (quantif_path (product_type p)) = Text s (Some q) \<and> q \<noteq> 0
              \<and> \<not> processing_baseline p < 4 \<and> offset_band_id p b = Inr k
              \<and> el_findtext doc (offset_path (product_type p) k) = Text s' (Some off) \<Longrightarrow>
            to_reflectance p band_arr path b st =
              (Inr (rescale off q band_arr),
               st\<lparr>no_data_val := (no_data_val st)(b \<mapsto> (base_no_data_val st + off) / q)\<rparr>)"
    using jp2 calibration_ge_4 [of p _ _ _ b] to_reflectance_calibrated [of path p b]
    by blast
  have d: "\<And>off q r c x. r < length band_arr \<and> c < length (band_arr ! r)
              \<and> band_arr ! r ! c = Fin x \<and> q \<noteq> 0 \<Longrightarrow>
            rescale off q band_arr ! r ! c = Fin ((x + off) / q)"
    by (simp add: rescale_pixel)
  from a b c d show ?thesis by blast
qed

theorem to_reflectance_formula_witness:
  "to_reflectance (example_s2 4 (Inr example_datatake) (Inl (InvalidProductError ''no datatake'')))
      [[Fin 2000, NaN]] ''T30TTK_20200824T110631_B04.jp2'' RED example_state
     = (Inr [[Fin (1 / 10), NaN]], example_state\<lparr>no_data_val := [RED \<mapsto> - (1 / 10)]\<rparr>)
   \<and> to_reflectance (example_s2 (209 / 100) (Inr example_datatake) (Inr example_datatake))
      [[Fin 2000, NaN]] ''T30TTK_20200824T110631_B04.jp2'' RED example_state
     = (Inr [[Fin (1 / 5), NaN]], example_state\<lparr>no_data_val := [RED \<mapsto> 0]\<rparr>)
   \<and> to_reflectance (example_s2 4 (Inr example_datatake) (Inr example_datatake))
      [[Fin 2000, NaN]] ''T30TTK_20200824T110631_B8A.jp2'' NIR example_state
     = (Inr [[Fin (1 / 10), NaN]], example_state\<lparr>no_data_val := [NIR \<mapsto> - (1 / 10)]\<rparr>)"
  using
    to_reflectance_formula [of "''T30TTK_20200824T110631_B04.jp2''"
      "example_s2 4 (Inr example_datatake) (Inl (InvalidProductError ''no datatake''))"
      "[[Fin 2000, NaN]]" RED example_state]
    to_reflectance_formula [of "''T30TTK_20200824T110631_B04.jp2''"
      "example_s2 (209 / 100) (Inr example_datatake) (Inr example_datatake)"
      "[[Fin 2000, NaN]]" RED example_state]
    to_reflectance_formula [of "''T30TTK_20200824T110631_B8A.jp2''"
      "example_s2 4 (Inr example_datatake) (Inr example_datatake)"
      "[[Fin 2000, NaN]]" NIR example_state]
  by (simp add: endswith_def example_s2_def example_datatake_def example_state_def
      quantif_path_def offset_path_def quantif_prefix_def offset_prefix_def
      offset_band_id_def str_nat_digit digit_char_def rescale_def)

text \<open>
  C8 (as stated). The claim: with missing or malformed metadata fields
  \<^verbatim>\<open>get_cloud_cover\<close> returns 0 and \<^verbatim>\<open>get_mean_sun_angles\<close> returns (0, 0), and neither
  raises. A cloud percentage that is present but not a number makes \<^verbatim>\<open>float\<close> raise
  \<^verbatim>\<open>ValueError\<close>, which the handler \<^verbatim>\<open>except (InvalidProductError, TypeError)\<close> lets
  through to the caller; nothing is logged.
\<close>

theorem malformed_cloud_cover_raises:
  "get_cloud_cover (example_s2 4 (Inr example_tile_mtd) (Inr example_datatake)) []
     = (Inl ValueError, [])"
  by (simp add: get_cloud_cover_def example_s2_def example_tile_mtd_def)

text \<open>
  C8 (amended). When the metadata cannot be read (\<^verbatim>\<open>InvalidProductError\<close>),
  \<^verbatim>\<open>get_cloud_cover\<close> returns 0 and \<^verbatim>\<open>get_mean_sun_angles\<close> returns (0, 0), each with one
  warning and without raising. The same holds for the cloud cover when the
  \<^verbatim>\<open>CLOUDY_PIXEL_PERCENTAGE\<close> element is absent, and for the sun angles when the
  \<^verbatim>\<open>Mean_Sun_Angle\<close> element is there and its zenith text is absent, or its zenith is a
  number and its azimuth text is absent. A cloud percentage or a zenith angle whose text is
  not a number raises \<^verbatim>\<open>ValueError\<close> to the caller.
\<close>

theorem metadata_fallbacks:
  "(\<forall>msg. mtd p = Inl (InvalidProductError msg) \<longrightarrow>
       get_cloud_cover p lg =
         (Inr 0, lg @ [(LogWarning,
            ''CLOUDY_PIXEL_PERCENTAGE not found in metadata! Cloud coverage set to 0.'')])
       \<and> get_mean_sun_angles p lg =
         (Inr (0, 0), lg @ [(LogWarning, msg @ '': setting sun angles to (0, 0).'')]))
   \<and> (\<forall>doc. mtd p = Inr doc \<and> el_findtext doc ''.//CLOUDY_PIXEL_PERCENTAGE'' = NoText \<longrightarrow>
       get_cloud_cover p lg =
         (Inr 0, lg @ [(LogWarning,
            ''CLOUDY_PIXEL_PERCENTAGE not found in metadata! Cloud coverage set to 0.'')]))
   \<and> (\<forall>doc angles. mtd p = Inr doc \<and> el_find doc ''.//Mean_Sun_Angle'' = Some angles
         \<and> el_findtext angles ''ZENITH_ANGLE'' = NoText \<longrightarrow>
       get_mean_sun_angles p lg =
         (Inr (0, 0), lg @ [(LogWarning,
            ''Azimuth or Zenith angles not found in metadata!: setting sun angles to (0, 0).'')]))
   \<and> (\<forall>doc angles s z. mtd p = Inr doc \<and> el_find doc ''.//Mean_Sun_Angle'' = Some angles
         \<and> el_findtext angles ''ZENITH_ANGLE'' = Text s (Some z)
         \<and> el_findtext angles ''AZIMUTH_ANGLE'' = NoText \<longrightarrow>
       get_mean_sun_angles p lg =
         (Inr (0, 0), lg @ [(LogWarning,
            ''Azimuth or Zenith angles not found in metadata!: setting sun angles to (0, 0).'')]))
   \<and> (\<forall>doc s. mtd p = Inr doc
         \<and> el_findtext doc ''.//CLOUDY_PIXEL_PERCENTAGE'' = Text s None \<longrightarrow>
       get_cloud_cover p lg = (Inl ValueError, lg))
   \<and> (\<forall>doc angles s. mtd p = Inr doc \<and> el_find doc ''.//Mean_Sun_Angle'' = Some angles
         \<and> el_findtext angles ''ZENITH_ANGLE'' = Text s None \<longrightarrow>
       get_mean_sun_angles p lg = (Inl ValueError, lg))"
  by (auto simp: get_cloud_cover_def get_mean_sun_angles_def read_sun_angles_def
      not_found_def log_warning_def)

theorem metadata_fallbacks_witness:
  "get_cloud_cover (example_s2 4 (Inl (InvalidProductError ''no metadata'')) (Inr example_datatake)) []
     = (Inr 0, [(LogWarning,
          ''CLOUDY_PIXEL_PERCENTAGE not found in metadata! Cloud coverage set to 0.'')])
   \<and> get_mean_sun_angles
       (example_s2 4 (Inl (InvalidProductError ''no metadata'')) (Inr example_datatake)) []
     = (Inr (0, 0), [(LogWarning, ''no metadata: setting sun angles to (0, 0).'')])
   \<and> get_cloud_cover (example_s2 4 (Inr example_empty_mtd) (Inr example_datatake)) []
     = (Inr 0, [(LogWarning,
          ''CLOUDY_PIXEL_PERCENTAGE not found in metadata! Cloud coverage set to 0.'')])
   \<and> get_mean_sun_angles (example_s2 4 (Inr example_empty_mtd) (Inr example_datatake)) []
     = (Inr (0, 0), [(LogWarning,
          ''Azimuth or Zenith angles not found in metadata!: setting sun angles to (0, 0).'')])
   \<and> get_mean_sun_angles (example_s2 4 (Inr example_tile_mtd) (Inr example_datatake)) []
     = (Inr (0, 0), [(LogWarning,
          ''Azimuth or Zenith angles not found in metadata!: setting sun angles to (0, 0).'')])"
  using
    metadata_fallbacks [of "example_s2 4 (Inl (InvalidProductError ''no metadata''))
                              (Inr example_datatake)" "[]"]
    metadata_fallbacks [of "example_s2 4 (Inr example_empty_mtd) (Inr example_datatake)" "[]"]
    metadata_fallbacks [of "example_s2 4 (Inr example_tile_mtd) (Inr example_datatake)" "[]"]
  by (simp add: example_s2_def example_empty_mtd_def example_tile_mtd_def)

text \<open>
  C10. The claim: when the datatake metadata is absent or has no
  \<^verbatim>\<open>SENSING_ORBIT_DIRECTION\<close> element, \<^verbatim>\<open>get_orbit_direction\<close> returns DESCENDING
  without raising and without a warning. With the metadata absent it does. With the
  element missing, \<^verbatim>\<open>findtext\<close> gives \<^verbatim>\<open>None\<close>, the lookup raises \<^verbatim>\<open>ValueError\<close>,
  and the handler \<^verbatim>\<open>except TypeError\<close>, written for this very case (its message is
  "SENSING_ORBIT_DIRECTION not found in metadata!"), does not catch it: the
  \<^verbatim>\<open>ValueError\<close> reaches the caller.
\<close>

theorem orbit_direction_missing_field_raises:
  "get_orbit_direction (example_s2 4 (Inr example_tile_mtd) (Inr example_datatake)) []
     = (Inl ValueError, [])
   \<and> get_orbit_direction
       (example_s2 4 (Inr example_tile_mtd) (Inl (InvalidProductError ''no datatake''))) []
     = (Inr DESCENDING, [])"
  by (simp add: get_orbit_direction_def read_orbit_direction_def not_found_def from_value_def
      example_s2_def example_datatake_def)

lemma null_pixels_pixel:
  "r < length band_arr \<Longrightarrow> c < length (band_arr ! r) \<Longrightarrow>
   mask_pixel (null_pixels band_arr) r c = (if band_arr ! r ! c = Fin 0 then 1 else 0)"
  by (simp add: null_pixels_def)

text \<open>
  C5 (as stated). The claim: with an empty detector footprint, invalid-pixel management
  marks exactly the pixels equal to 0. \<^verbatim>\<open>_manage_invalid_pixels_lt_4_0\<close> does not stop
  at the footprint: it goes on to the NODATA, DEFECT, SATURA and TECQUA layers, which are
  meant to be merged into the mask. On a one-pixel band of value 5 that a
  \<^verbatim>\<open>QT_NODATA_PIXELS\<close> feature covers, no mask of the null pixels comes back: the method
  logs the warning and then raises \<^verbatim>\<open>IndexError\<close> from
  \<^verbatim>\<open>mask[mask_pix] = self._mask_true\<close>.
\<close>

theorem nodata_layer_changes_mask:
  "manage_invalid_pixels_lt_4_0 (\<lambda>band_arr m. m) example_s2_nodata_pix [[Fin 5]] RED []
     = (Inl IndexError,
        [(LogWarning, ''Empty detector footprint (DETFOO) vector. Nodata will be set where the pixels are null.'')])
   \<and> fst (manage_invalid_pixels_lt_4_0 (\<lambda>band_arr m. m) example_s2_nodata_pix [[Fin 5]] RED [])
     \<noteq> Inr (null_pixels [[Fin 5]])"
  by (simp add: manage_invalid_pixels_lt_4_0_def example_s2_nodata_pix_def example_s2_def
      detector_nodata_def merge_nodata_pix_def features_rasterize_def rio_height_def rio_width_def
      null_pixels_def log_warning_def)

text \<open>
  C5 (amended). Below baseline 4.0, when the detector-footprint layer opens and is empty:
  \<^verbatim>\<open>_manage_nodata_lt_4_0\<close> logs one warning and masks exactly the pixels equal to 0;
  \<^verbatim>\<open>_manage_invalid_pixels_lt_4_0\<close> does the same when the other layers open and have
  nothing to add: no \<^verbatim>\<open>QT_NODATA_PIXELS\<close> feature in the NODATA layer, no feature in
  the DEFECT and SATURA layers, no \<^verbatim>\<open>MSI_LOST\<close> or \<^verbatim>\<open>MSI_DEG\<close> feature in the TECQUA
  layer. The mask of the null pixels holds 1 at a pixel exactly when the band is 0 there.
\<close>

theorem empty_footprint_fallback:
  assumes "gml_mask p GmlFOOTPRINT (Some b) = Inr []"
  shows "manage_nodata_lt_4_0 f p band_arr b lg =
           (Inr (f band_arr (null_pixels band_arr)),
            lg @ [(LogWarning, ''Empty detector footprint (DETFOO) vector. Nodata will be set where the pixels are null.'')])
       \<and> (\<forall>nodata_all tecqua.
             gml_mask p GmlNODATA (Some b) = Inr nodata_all
             \<and> filter (\<lambda>f. gml_id f = ''QT_NODATA_PIXELS'') nodata_all = []
             \<and> gml_mask p GmlDEFECT (Some b) = Inr []
             \<and> gml_mask p GmlSATURATION (Some b) = Inr []
             \<and> gml_mask p GmlQUALITY (Some b) = Inr tecqua
             \<and> filter (\<lambda>f. gml_id f \<in> set [''MSI_LOST'', ''MSI_DEG'']) tecqua = [] \<longrightarrow>
           manage_invalid_pixels_lt_4_0 f p band_arr b lg =
             (Inr (f band_arr (null_pixels band_arr)),
              lg @ [(LogWarning, ''Empty detector footprint (DETFOO) vector. Nodata will be set where the pixels are null.'')]))
       \<and> (\<forall>r c. r < length band_arr \<and> c < length (band_arr ! r) \<longrightarrow>
             mask_pixel (null_pixels band_arr) r c = (if band_arr ! r ! c = Fin 0 then 1 else 0))"
proof -
  have a: "manage_nodata_lt_4_0 f p band_arr b lg =
           (Inr (f band_arr (null_pixels band_arr)),
            lg @ [(LogWarning, ''Empty detector footprint (DETFOO) vector. Nodata will be set where the pixels are null.'')])"
    using assms by (simp add: manage_nodata_lt_4_0_def detector_nodata_def log_warning_def)
  have b: "\<forall>nodata_all tecqua.
             gml_mask p GmlNODATA (Some b) = Inr nodata_all
             \<and> filter (\<lambda>f. gml_id f = ''QT_NODATA_PIXELS'') nodata_all = []
             \<and> gml_mask p GmlDEFECT (Some b) = Inr []
             \<and> gml_mask p GmlSATURATION (Some b) = Inr []
             \<and> gml_mask p GmlQUALITY (Some b) = Inr tecqua
             \<and> filter (\<lambda>f. gml_id f \<in> set [''MSI_LOST'', ''MSI_DEG'']) tecqua = [] \<longrightarrow>
           manage_invalid_pixels_lt_4_0 f p band_arr b lg =
             (Inr (f band_arr (null_pixels band_arr)),
              lg @ [(LogWarning, ''Empty detector footprint (DETFOO) vector. Nodata will be set where the pixels are null.'')])"
    using assms
    by (auto simp: manage_invalid_pixels_lt_4_0_def detector_nodata_def merge_nodata_pix_def
        log_warning_def)
  have c: "\<forall>r c. r < length band_arr \<and> c < length (band_arr ! r) \<longrightarrow>
             mask_pixel (null_pixels band_arr) r c = (if band_arr ! r ! c = Fin 0 then 1 else 0)"
    by (simp add: null_pixels_pixel)
  show ?thesis by (intro conjI) (rule a b c)+
qed

theorem empty_footprint_fallback_witness:
  "manage_nodata_lt_4_0 (\<lambda>band_arr m. m)
      (example_s2 (209 / 100) (Inr example_tile_mtd) (Inr example_datatake))
      [[Fin 5, Fin 0], [Fin 1, NaN]] RED []
     = (Inr (Mask3 [[[0, 1], [0, 0]]]),
        [(LogWarning, ''Empty detector footprint (DETFOO) vector. Nodata will be set where the pixels are null.'')])
   \<and> manage_invalid_pixels_lt_4_0 (\<lambda>band_arr m. m)
      (example_s2 (209 / 100) (Inr example_tile_mtd) (Inr example_datatake))
      [[Fin 5, Fin 0], [Fin 1, NaN]] RED []
     = (Inr (Mask3 [[[0, 1], [0, 0]]]),
        [(LogWarning, ''Empty detector footprint (DETFOO) vector. Nodata will be set where the pixels are null.'')])
   \<and> mask_pixel (null_pixels [[Fin 5, Fin 0], [Fin 1, NaN]]) 0 1 = 1"
proof -
  have footprint:
    "gml_mask (example_s2 (209 / 100) (Inr example_tile_mtd) (Inr example_datatake))
       GmlFOOTPRINT (Some RED) = Inr []"
    by (simp add: example_s2_def)
  note t = empty_footprint_fallback [OF footprint, of "\<lambda>band_arr m. m"
             "[[Fin 5, Fin 0], [Fin 1, NaN]]" "[]"]
  have a: "manage_nodata_lt_4_0 (\<lambda>band_arr m. m)
      (example_s2 (209 / 100) (Inr example_tile_mtd) (Inr example_datatake))
      [[Fin 5, Fin 0], [Fin 1, NaN]] RED []
     = (Inr (Mask3 [[[0, 1], [0, 0]]]),
        [(LogWarning, ''Empty detector footprint (DETFOO) vector. Nodata will be set where the pixels are null.'')])"
    using t [THEN conjunct1] by (simp add: null_pixels_def)
  have b: "manage_invalid_pixels_lt_4_0 (\<lambda>band_arr m. m)
      (example_s2 (209 / 100) (Inr example_tile_mtd) (Inr example_datatake))
      [[Fin 5, Fin 0], [Fin 1, NaN]] RED []
     = (Inr (Mask3 [[[0, 1], [0, 0]]]),
        [(LogWarning, ''Empty detector footprint (DETFOO) vector. Nodata will be set where the pixels are null.'')])"
    using t [THEN conjunct2, THEN conjunct1, rule_format, of "[]" "[]"]
    by (simp add: example_s2_def null_pixels_def)
  have c: "mask_pixel (null_pixels [[Fin 5, Fin 0], [Fin 1, NaN]]) 0 1 = 1"
    using t [THEN conjunct2, THEN conjunct2, rule_format, of 0 1] by simp
  from a b c show ?thesis by simp
qed

lemma clouds_loop_raises:
  "b \<in> set bands \<Longrightarrow> one b = Inl e0 \<Longrightarrow> \<exists>e. clouds_loop one bands d = Inl e"
  by (induction bands arbitrary: d) (auto split: sum.splits)

lemma clouds_loop_first_raise:
  "list_all (\<lambda>b. \<exists>c. one b = Inr c) pre \<Longrightarrow> one x = Inl e \<Longrightarrow>
   clouds_loop one (pre @ x # post) d = Inl e"
  by (induction pre arbitrary: d) (auto split: sum.splits)

lemma cloud_lt_4_0_shadows:
  "cloud_lt_4_0 create_mask str_band p def_band cloud_vec nd SHADOWS
     = Inl (InvalidTypeError (''Non existing cloud band for Sentinel-2: '' @ str_band SHADOWS))"
  by (simp add: cloud_lt_4_0_def)

lemma cloud_gt_4_0_shadows:
  "cloud_gt_4_0 str_band cloud_vec SHADOWS
     = Inl (InvalidTypeError (''Non existing cloud band for Sentinel-2: '' @ str_band SHADOWS))"
  by (simp add: cloud_gt_4_0_def)

lemma cloud_lt_4_0_supported:
  "set pre \<subseteq> {ALL_CLOUDS, CIRRUS, CLOUDS, RAW_CLOUDS} \<Longrightarrow>
   list_all (\<lambda>b. \<exists>c. cloud_lt_4_0 create_mask str_band p def_band cloud_vec nd b = Inr c) pre"
  by (auto simp: list_all_iff cloud_lt_4_0_def)

lemma cloud_gt_4_0_supported:
  "set pre \<subseteq> {ALL_CLOUDS, CIRRUS, CLOUDS, RAW_CLOUDS} \<Longrightarrow> 2 \<le> length cloud_vec \<Longrightarrow>
   list_all (\<lambda>b. \<exists>c. cloud_gt_4_0 str_band cloud_vec b = Inr c) pre"
  by (auto simp: list_all_iff cloud_gt_4_0_def plane_def)

lemma open_clouds_never_returns:
  assumes "SHADOWS \<in> set bands"
  shows "\<exists>e. open_clouds create_mask str_band p bands = Inl e"
proof (cases "processing_baseline p < 4")
  case True
  show ?thesis
  proof (cases "gml_mask p GmlCLOUDS None")
    case (Inl e)
    with True assms show ?thesis by (auto simp: open_clouds_def open_clouds_lt_4_0_def)
  next
    case (Inr cloud_vec)
    show ?thesis
    proof (cases "default_band p")
      case (Inl e)
      with True Inr assms show ?thesis by (auto simp: open_clouds_def open_clouds_lt_4_0_def)
    next
      case def: (Inr def_band)
      have "\<exists>e. clouds_loop (cloud_lt_4_0 create_mask str_band p def_band cloud_vec nd)
                  bands Map.empty = Inl e" for nd
        using assms cloud_lt_4_0_shadows by (rule clouds_loop_raises)
      then show ?thesis using True Inr def assms
        by (auto simp: open_clouds_def open_clouds_lt_4_0_def)
    qed
  qed
next
  case False
  show ?thesis
  proof (cases "jp2_clouds p")
    case (Inl e)
    with False assms show ?thesis by (auto simp: open_clouds_def open_clouds_gt_4_0_def)
  next
    case (Inr cloud_vec)
    have "\<exists>e. clouds_loop (cloud_gt_4_0 str_band cloud_vec) bands Map.empty = Inl e"
      using assms cloud_gt_4_0_shadows by (rule clouds_loop_raises)
    then show ?thesis using False Inr assms
      by (auto simp: open_clouds_def open_clouds_gt_4_0_def)
  qed
qed

text \<open>
  C6. Sentinel-2 does not produce the SHADOWS band (\<^verbatim>\<open>_has_cloud_band\<close> answers
  False). A request to \<^verbatim>\<open>_open_clouds\<close> whose band list holds SHADOWS never returns a
  dictionary, so no array, zero-filled or not, comes back for it. When the cloud mask (and,
  below baseline 4.0, the default band) can be read and the bands before SHADOWS are
  cloud bands of the product, the exception is \<^verbatim>\<open>InvalidTypeError\<close> and its message ends
  with the band.
\<close>

theorem shadows_unsupported:
  assumes "SHADOWS \<in> set bands"
  shows "\<not> has_cloud_band SHADOWS
       \<and> (\<exists>e. open_clouds create_mask str_band p bands = Inl e)
       \<and> (\<forall>pre post cloud_vec def_band.
             bands = pre @ SHADOWS # post
             \<and> set pre \<subseteq> {ALL_CLOUDS, CIRRUS, CLOUDS, RAW_CLOUDS}
             \<and> processing_baseline p < 4
             \<and> gml_mask p GmlCLOUDS None = Inr cloud_vec \<and> default_band p = Inr def_band \<longrightarrow>
           open_clouds create_mask str_band p bands
             = Inl (InvalidTypeError
                      (''Non existing cloud band for Sentinel-2: '' @ str_band SHADOWS)))
       \<and> (\<forall>pre post cloud_vec.
             bands = pre @ SHADOWS # post
             \<and> set pre \<subseteq> {ALL_CLOUDS, CIRRUS, CLOUDS, RAW_CLOUDS}
             \<and> \<not> processing_baseline p < 4
             \<and> jp2_clouds p = Inr cloud_vec \<and> 2 \<le> length cloud_vec \<longrightarrow>
           open_clouds create_mask str_band p bands
             = Inl (InvalidTypeError
                      (''Non existing cloud band for Sentinel-2: '' @ str_band SHADOWS)))"
proof -
  have a: "\<not> has_cloud_band SHADOWS" by (simp add: has_cloud_band_def)
  have b: "\<exists>e. open_clouds create_mask str_band p bands = Inl e"
    using assms by (rule open_clouds_never_returns)
  have c: "\<And>pre post cloud_vec def_band.
             bands = pre @ SHADOWS # post
             \<and> set pre \<subseteq> {ALL_CLOUDS, CIRRUS, CLOUDS, RAW_CLOUDS}
             \<and> processing_baseline p < 4
             \<and> gml_mask p GmlCLOUDS None = Inr cloud_vec \<and> default_band p = Inr def_band \<Longrightarrow>
           open_clouds create_mask str_band p bands
             = Inl (InvalidTypeError
                      (''Non existing cloud band for Sentinel-2: '' @ str_band SHADOWS))"
    by (simp add: open_clouds_def open_clouds_lt_4_0_def
        clouds_loop_first_raise [OF cloud_lt_4_0_supported cloud_lt_4_0_shadows])
  have d: "\<And>pre post cloud_vec.
             bands = pre @ SHADOWS # post
             \<and> set pre \<subseteq> {ALL_CLOUDS, CIRRUS, CLOUDS, RAW_CLOUDS}
             \<and> \<not> processing_baseline p < 4
             \<and> jp2_clouds p = Inr cloud_vec \<and> 2 \<le> length cloud_vec \<Longrightarrow>
           open_clouds create_mask str_band p bands
             = Inl (InvalidTypeError
                      (''Non existing cloud band for Sentinel-2: '' @ str_band SHADOWS))"
    by (simp add: open_clouds_def open_clouds_gt_4_0_def
        clouds_loop_first_raise [OF cloud_gt_4_0_supported cloud_gt_4_0_shadows])
  from a b c d show ?thesis by blast
qed


theorem shadows_unsupported_witness:
  "open_clouds (\<lambda>xds cond nd. cond) (\<lambda>b. ''CloudsBandNames.SHADOWS'')
      (example_s2 (209 / 100) (Inr example_tile_mtd) (Inr example_datatake)) [CLOUDS, SHADOWS]
     = Inl (InvalidTypeError ''Non existing cloud band for Sentinel-2: CloudsBandNames.SHADOWS'')
   \<and> open_clouds (\<lambda>xds cond nd. cond) (\<lambda>b. ''CloudsBandNames.SHADOWS'')
      (example_s2 4 (Inr example_tile_mtd) (Inr example_datatake)) [CLOUDS, SHADOWS]
     = Inl (InvalidTypeError ''Non existing cloud band for Sentinel-2: CloudsBandNames.SHADOWS'')"
proof -
  have bands: "SHADOWS \<in> set [CLOUDS, SHADOWS]" by simp
  note old = shadows_unsupported [OF bands, of "\<lambda>xds cond nd. cond"
       "\<lambda>b. ''CloudsBandNames.SHADOWS''"
       "example_s2 (209 / 100) (Inr example_tile_mtd) (Inr example_datatake)",
       THEN conjunct2, THEN conjunct2, THEN conjunct1, rule_format,
       of "[CLOUDS]" "[]" "[]" "[[Fin 1, NaN]]"]
  note new = shadows_unsupported [OF bands, of "\<lambda>xds cond nd. cond"
       "\<lambda>b. ''CloudsBandNames.SHADOWS''"
       "example_s2 4 (Inr example_tile_mtd) (Inr example_datatake)",
       THEN conjunct2, THEN conjunct2, THEN conjunct2, rule_format,
       of "[CLOUDS]" "[]" "[[[0, 1]], [[1, 0]]]"]
  show ?thesis using old new by (simp add: example_s2_def)
qed

section \<open>Properties of crs\<close>

lemma cache_hit: "lookup st = Some v \<Longrightarrow> cache lookup store body st = (Inr v, st)"
  by (simp add: cache_def)

lemma s2_crs_stores:
  "s2_crs from_string super_crs p st = (Inr v, st1) \<Longrightarrow> memo_crs st1 = Some v"
  by (auto simp: s2_crs_def cache_def split: option.splits sum.splits prod.splits)

lemma s2_crs_again:
  "s2_crs from_string super_crs p st = (Inr v, st1) \<Longrightarrow>
   s2_crs from_string super_crs p st1 = (Inr v, st1)"
  unfolding s2_crs_def [of from_string super_crs p]
  by (rule cache_hit) (simp add: s2_crs_stores [unfolded s2_crs_def])

lemma read_mtd_reads:
  "read_mtd p st = (r, st') \<Longrightarrow> reads st' = reads st \<or> reads st' = reads st @ [''read_mtd'']"
  by (auto simp: read_mtd_def cache_def split: option.splits sum.splits)

lemma s2_crs_body_reads:
  assumes old: "processing_baseline p < 207 / 100"
    and body: "s2_crs_body from_string super_crs p st = (r, st')"
  shows "reads st' = reads st \<or> reads st' = reads st @ [''read_mtd'']"
proof -
  obtain r0 st0 where rd: "read_mtd p st = (r0, st0)"
    by (cases "read_mtd p st")
  have "st' = st0"
    using body old rd
    by (simp add: s2_crs_body_def split: prod.splits sum.splits error.splits)
  with read_mtd_reads [OF rd] show ?thesis by simp
qed

lemma s2_crs_reads:
  assumes old: "processing_baseline p < 207 / 100"
    and call: "s2_crs from_string super_crs p st = (r, st')"
  shows "reads st' = reads st \<or> reads st' = reads st @ [''read_mtd'']"
proof (cases "memo_crs st")
  case (Some v)
  with call show ?thesis by (simp add: s2_crs_def cache_def)
next
  case None
  obtain r0 st0 where body: "s2_crs_body from_string super_crs p st = (r0, st0)"
    by (cases "s2_crs_body from_string super_crs p st")
  from s2_crs_body_reads [OF old body]
  have "reads st0 = reads st \<or> reads st0 = reads st @ [''read_mtd'']" .
  moreover have "reads st' = reads st0"
    using call None body by (cases r0) (auto simp: s2_crs_def cache_def)
  ultimately show ?thesis by simp
qed

lemma s3_crs_log:
  "s3_crs utm from_string q io0 = (r, io1) \<Longrightarrow> r = Inr w \<Longrightarrow>
   io1 = io0 @ [''netcdf:'' @ tie_geo_file q @ '':'' @ tie_lat_nc_name q,
                ''netcdf:'' @ tie_geo_file q @ '':'' @ tie_lon_nc_name q]"
  by (auto simp: s3_crs_def read_nc_def split: sum.splits if_splits)

lemma s3_crs_value:
  "fst (s3_crs utm from_string q io0) = fst (s3_crs utm from_string q io1)"
  by (auto simp: s3_crs_def read_nc_def split: sum.splits if_splits)

text \<open>
  C3 (amended). On a Sentinel-2 product, a call of \<^verbatim>\<open>crs()\<close> that returns a value is
  followed by a call that returns the same value from the memo and leaves the instance as
  it is, reading nothing; below baseline 2.07 the first call reads the metadata at most
  once. On a Sentinel-3 product \<^verbatim>\<open>crs()\<close> is not memoized: a second call returns the
  same value, and each call reads the tie-point latitudes and longitudes.
\<close>

theorem crs_memoization:
  "(s2_crs from_string super_crs p st = (Inr v, st1) \<longrightarrow>
      s2_crs from_string super_crs p st1 = (Inr v, st1)
      \<and> (processing_baseline p < 207 / 100 \<longrightarrow>
           reads st1 = reads st \<or> reads st1 = reads st @ [''read_mtd'']))
   \<and> (s3_crs utm from_string' q io0 = (Inr w, io1) \<longrightarrow>
      io1 = io0 @ [''netcdf:'' @ tie_geo_file q @ '':'' @ tie_lat_nc_name q,
                   ''netcdf:'' @ tie_geo_file q @ '':'' @ tie_lon_nc_name q]
      \<and> s3_crs utm from_string' q io1 =
          (Inr w, io1 @ [''netcdf:'' @ tie_geo_file q @ '':'' @ tie_lat_nc_name q,
                         ''netcdf:'' @ tie_geo_file q @ '':'' @ tie_lon_nc_name q]))"
proof (intro conjI impI)
  assume "s2_crs from_string super_crs p st = (Inr v, st1)"
  then show "s2_crs from_string super_crs p st1 = (Inr v, st1)" by (rule s2_crs_again)
next
  assume "s2_crs from_string super_crs p st = (Inr v, st1)"
    and "processing_baseline p < 207 / 100"
  then show "reads st1 = reads st \<or> reads st1 = reads st @ [''read_mtd'']"
    using s2_crs_reads by blast
next
  assume c: "s3_crs utm from_string' q io0 = (Inr w, io1)"
  then show "io1 = io0 @ [''netcdf:'' @ tie_geo_file q @ '':'' @ tie_lat_nc_name q,
                   ''netcdf:'' @ tie_geo_file q @ '':'' @ tie_lon_nc_name q]"
    by (rule s3_crs_log) simp
next
  assume c: "s3_crs utm from_string' q io0 = (Inr w, io1)"
  obtain r2 io2 where c2: "s3_crs utm from_string' q io1 = (r2, io2)"
    by (cases "s3_crs utm from_string' q io1")
  have r2: "r2 = Inr w" using s3_crs_value [of utm from_string' q io0 io1] c c2 by simp
  from s3_crs_log [OF c2 r2]
  have "io2 = io1 @ [''netcdf:'' @ tie_geo_file q @ '':'' @ tie_lat_nc_name q,
                   ''netcdf:'' @ tie_geo_file q @ '':'' @ tie_lon_nc_name q]" .
  with r2 c2 show "s3_crs utm from_string' q io1 =
          (Inr w, io1 @ [''netcdf:'' @ tie_geo_file q @ '':'' @ tie_lat_nc_name q,
                         ''netcdf:'' @ tie_geo_file q @ '':'' @ tie_lon_nc_name q])"
    by simp
qed

text \<open>
  C3 (as stated). The claim: for every product, two calls of \<^verbatim>\<open>crs()\<close> read the source
  at most once. \<^verbatim>\<open>S3Product.crs\<close> has no memo: after two calls on a Sentinel-3 product
  the latitude and longitude subdatasets have each been read twice.
\<close>

theorem s3_crs_reads_twice:
  "snd (s3_crs (\<lambda>lat lon. ''EPSG:32632'') example_from_string example_s3
          (snd (s3_crs (\<lambda>lat lon. ''EPSG:32632'') example_from_string example_s3 [])))
     = [''netcdf:tie_geo_coordinates.nc:latitude'', ''netcdf:tie_geo_coordinates.nc:longitude'',
        ''netcdf:tie_geo_coordinates.nc:latitude'', ''netcdf:tie_geo_coordinates.nc:longitude'']"
  by (simp add: s3_crs_def read_nc_def example_s3_def example_from_string_def middle_pixel_def
      rio_height_def rio_width_def)

theorem crs_memoization_witness:
  "s2_crs example_from_string (\<lambda>st. (Inl TypeError, st))
      (example_s2 2 (Inl (InvalidProductError ''broken'')) (Inr example_datatake))
      (example_instance\<lparr>memo_crs := Some ''epsg:32630'', reads := [''read_mtd'']\<rparr>)
     = (Inr ''epsg:32630'',
        example_instance\<lparr>memo_crs := Some ''epsg:32630'', reads := [''read_mtd'']\<rparr>)
   \<and> s3_crs (\<lambda>lat lon. ''EPSG:32632'') example_from_string example_s3
        [''netcdf:tie_geo_coordinates.nc:latitude'', ''netcdf:tie_geo_coordinates.nc:longitude'']
     = (Inr ''EPSG:32632'',
        [''netcdf:tie_geo_coordinates.nc:latitude'', ''netcdf:tie_geo_coordinates.nc:longitude'',
         ''netcdf:tie_geo_coordinates.nc:latitude'', ''netcdf:tie_geo_coordinates.nc:longitude''])"
proof -
  have first_s2:
    "s2_crs example_from_string (\<lambda>st. (Inl TypeError, st))
        (example_s2 2 (Inl (InvalidProductError ''broken'')) (Inr example_datatake))
        example_instance
       = (Inr ''epsg:32630'',
          example_instance\<lparr>memo_crs := Some ''epsg:32630'', reads := [''read_mtd'']\<rparr>)"
    by (simp add: s2_crs_def s2_crs_body_def cache_def read_mtd_def example_s2_def
        example_instance_def example_from_string_def tile_crs_def)
  have first_s3:
    "s3_crs (\<lambda>lat lon. ''EPSG:32632'') example_from_string example_s3 []
       = (Inr ''EPSG:32632'',
          [''netcdf:tie_geo_coordinates.nc:latitude'',
           ''netcdf:tie_geo_coordinates.nc:longitude''])"
    by (simp add: s3_crs_def read_nc_def example_s3_def example_from_string_def
        middle_pixel_def rio_height_def rio_width_def)
  from crs_memoization [THEN conjunct1, rule_format, OF first_s2, THEN conjunct1]
       crs_memoization [THEN conjunct2, rule_format, OF first_s3, THEN conjunct2]
  show ?thesis by (simp add: example_s3_def)
qed

section \<open>Properties of band loading\<close>

text \<open>
  C9. \<^verbatim>\<open>_load_bands\<close> with an empty band list, on a Sentinel-2 and on a Sentinel-3
  product, for every resolution and size and whatever the path resolution and the band
  opening would do: the result is the empty dictionary and the I/O log is unchanged.
\<close>

theorem empty_band_list:
  "s2_load_bands resolution_from_size get_band_paths open_bands [] resolution size_arg io
     = (Inr Map.empty, io)
   \<and> s3_load_bands resolution_from_size' get_band_paths' open_bands' [] resolution' size_arg' io'
     = (Inr Map.empty, io')"
  by (simp add: s2_load_bands_def s3_load_bands_def)

section \<open>Properties of the RADARSAT-2 product\<close>

















end
